theory Spec2Isabelle
  imports Main
begin

section \<open>Errors\<close>

text \<open>
  Every \<^verbatim>\<open>throw new Error(...)\<close> of the two classes is one constructor, named after the
  error taxonomy. \<open>TypeError\<close> is what JavaScript raises when a property is read from
  \<^verbatim>\<open>undefined\<close> (an array read past its end followed by a field access).
\<close>

datatype error =
    BatchLengthMismatch          \<comment> \<open>Number of blocks and EncryptedLogs is not equal\<close>
  | DecryptionPayloadConflict    \<comment> \<open>Incoming and outgoing note payloads do not match\<close>
  | DeferredRetryFailed          \<comment> \<open>Deferred note could not be decoded\<close>
  | AlreadyStopped               \<comment> \<open>P2P client already stopped\<close>
  | NotReady                     \<comment> \<open>P2P client not ready\<close>
  | TypeError

section \<open>Note processor: data model\<close>

type_synonym Fr = nat
type_synonym PublicKey = nat
type_synonym TxHash = nat
type_synonym AztecAddress = nat
type_synonym Buffer = "nat list"

text \<open>
  Modelled from the spec: the declaration of the payload class is missing. A payload is a
  contract address, a storage slot, a note-type identifier and the note content.
\<close>

record L1NotePayload =
  noteContent :: "Fr list"
  contractAddress :: AztecAddress
  storageSlot :: Fr
  noteTypeId :: Fr

text \<open>
  Modelled from the spec: the declarations of the three record classes of the database
  package are missing. A note record is a payload bound to the transaction it came from,
  with a nullifier for the incoming variant, which the store keys by account; a deferred
  record is a payload with the transaction hash and the window of note hashes to search.
  The fields are those that \<^verbatim>\<open>note_processor.ts\<close> reads.
\<close>

record IncomingNoteDao =
  incomingPayload :: L1NotePayload
  incomingTxHash :: TxHash
  siloedNullifier :: Fr
  noteIndex :: int
  incomingIvpkM :: PublicKey

record OutgoingNoteDao =
  outgoingPayload :: L1NotePayload
  outgoingTxHash :: TxHash
  outgoingOvpkM :: PublicKey

record DeferredNoteDao =
  deferredIvpkM :: PublicKey
  deferredPayload :: L1NotePayload
  deferredTxHash :: TxHash
  deferredNewNoteHashes :: "Fr list"
  deferredDataStartIndexForTx :: int

text \<open>
  Modelled from the spec: the declarations of blocks and transaction effects are missing.
  An effect has a transaction identifier, the note hashes it created and the nullifiers it
  emits.
\<close>

record TxEffect =
  txHash :: TxHash
  noteHashes :: "Fr list"
  nullifiers :: "Fr list"

text \<open>
  Modelled from the spec: a block has a number, a header and a body. It is flattened
  here: \<open>nextAvailableLeafIndex\<close> is
  \<^verbatim>\<open>header.state.partial.noteHashTree.nextAvailableLeafIndex\<close>, the last two fields are
  those of \<^verbatim>\<open>body\<close>. JavaScript numbers holding integers are modelled as \<open>int\<close>.
\<close>

record L2Block =
  number :: int
  nextAvailableLeafIndex :: int
  numberOfTxsIncludingPadded :: int
  txEffects :: "TxEffect list"

text \<open>
  Modelled from the spec: the declarations of the log classes are missing. The encrypted
  logs of one block are its \<^verbatim>\<open>txLogs\<close>, one entry per transaction; each entry is
  its \<^verbatim>\<open>functionLogs\<close>, one entry per function call; each of those is its \<^verbatim>\<open>logs\<close>, and
  a log is its \<^verbatim>\<open>data\<close>.
\<close>

type_synonym EncryptedFunctionL2Logs = "Buffer list"
type_synonym EncryptedTxL2Logs = "EncryptedFunctionL2Logs list"
type_synonym EncryptedNoteL2BlockL2Logs = "EncryptedTxL2Logs list"

text \<open>The counters of \<^verbatim>\<open>this.stats\<close>, as the class initialises them.\<close>

record NoteProcessorStats =
  seen :: nat
  decryptedIncoming :: nat
  decryptedOutgoing :: nat
  deferred :: nat
  failed :: nat
  blocks :: nat
  txs :: nat

text \<open>What \<^verbatim>\<open>produceNoteDaos\<close> returns.\<close>

record NoteDaos =
  incomingNote :: "IncomingNoteDao option"
  outgoingNote :: "OutgoingNoteDao option"
  incomingDeferredNote :: "DeferredNoteDao option"

text \<open>
  What the class uses and does not define is a parameter of the model: decryption of a
  log with the account's incoming and outgoing secret keys (\<open>None\<close> when the log does not
  decrypt), the function \<^verbatim>\<open>produceNoteDaos\<close> (it adds to the set of excluded indices it
  is handed, so it returns the set as well), and the protocol constant.
\<close>

record Collaborators =
  decryptAsIncoming :: "Buffer \<Rightarrow> L1NotePayload option"
  decryptAsOutgoing :: "Buffer \<Rightarrow> L1NotePayload option"
  produceNoteDaos :: "PublicKey option \<Rightarrow> PublicKey option \<Rightarrow> L1NotePayload \<Rightarrow> TxHash
                        \<Rightarrow> Fr list \<Rightarrow> int \<Rightarrow> nat set \<Rightarrow> NoteDaos \<times> nat set"
  MAX_NEW_NOTE_HASHES_PER_TX :: int

section \<open>The database\<close>

text \<open>
  Modelled from the spec: the class \<^verbatim>\<open>PxeDatabase\<close> of the database package is missing.
  Its state is what the store interface speaks of: the persisted incoming, outgoing and
  deferred records, and the synched block number of each account key.
\<close>

record PxeDatabase =
  incomingStore :: "IncomingNoteDao list"
  outgoingStore :: "OutgoingNoteDao list"
  deferredStore :: "DeferredNoteDao list"
  synchedBlockNumbers :: "PublicKey \<rightharpoonup> int"

text \<open>Modelled from the spec: \<^verbatim>\<open>addNotes(incoming, outgoing)\<close> persists the records.\<close>

definition addNotes :: "IncomingNoteDao list \<Rightarrow> OutgoingNoteDao list \<Rightarrow> PxeDatabase \<Rightarrow> PxeDatabase" where
  "addNotes inc out d =
     d\<lparr>incomingStore := incomingStore d @ inc, outgoingStore := outgoingStore d @ out\<rparr>"

text \<open>Modelled from the spec: \<^verbatim>\<open>addDeferredNotes(list)\<close> persists the deferred records.\<close>

definition addDeferredNotes :: "DeferredNoteDao list \<Rightarrow> PxeDatabase \<Rightarrow> PxeDatabase" where
  "addDeferredNotes ds d = d\<lparr>deferredStore := deferredStore d @ ds\<rparr>"

text \<open>
  Modelled from the spec: \<^verbatim>\<open>removeNullifiedNotes(nullifiers, account) -> removed records\<close>
  removes any previously persisted incoming record for this account whose nullifier is in
  that set.
\<close>

definition isNullified :: "Fr list \<Rightarrow> PublicKey \<Rightarrow> IncomingNoteDao \<Rightarrow> bool" where
  "isNullified ns k n \<longleftrightarrow> siloedNullifier n \<in> set ns \<and> incomingIvpkM n = k"

definition removeNullifiedNotes ::
  "Fr list \<Rightarrow> PublicKey \<Rightarrow> PxeDatabase \<Rightarrow> IncomingNoteDao list \<times> PxeDatabase" where
  "removeNullifiedNotes ns k d =
     (filter (isNullified ns k) (incomingStore d),
      d\<lparr>incomingStore := filter (\<lambda>n. \<not> isNullified ns k n) (incomingStore d)\<rparr>)"

text \<open>Modelled from the spec: \<^verbatim>\<open>getSyncedBlock(account) -> number | none\<close>.\<close>

definition getSynchedBlockNumberForPublicKey :: "PxeDatabase \<Rightarrow> PublicKey \<Rightarrow> int option" where
  "getSynchedBlockNumberForPublicKey d k = synchedBlockNumbers d k"

text \<open>Modelled from the spec: \<^verbatim>\<open>setSyncedBlock(account, number)\<close>.\<close>

definition setSynchedBlockNumberForPublicKey :: "PublicKey \<Rightarrow> int \<Rightarrow> PxeDatabase \<Rightarrow> PxeDatabase" where
  "setSynchedBlockNumberForPublicKey k n d = d\<lparr>synchedBlockNumbers := (synchedBlockNumbers d)(k \<mapsto> n)\<rparr>"

text \<open>The mutating calls a processor makes on its database, in the order it makes them.\<close>

datatype DbCall =
    AddNotes "IncomingNoteDao list" "OutgoingNoteDao list"
  | RemoveNullifiedNotes "Fr list" PublicKey
  | AddDeferredNotes "DeferredNoteDao list"
  | SetSynchedBlockNumberForPublicKey PublicKey int

section \<open>Note processor\<close>

text \<open>
  The fields of the class that the methods read or write, and with them \<open>dbCalls\<close>, the
  calls made on the database so far.
\<close>

record NoteProcessor =
  account :: AztecAddress
  ivpkM :: PublicKey
  ovpkM :: PublicKey
  startingBlock :: int
  db :: PxeDatabase
  stats :: NoteProcessorStats
  dbCalls :: "DbCall list"

definition getSyncedToBlock :: "NoteProcessor \<Rightarrow> int" where
  "getSyncedToBlock np =
     (case getSynchedBlockNumberForPublicKey (db np) (ivpkM np) of
        Some n \<Rightarrow> n
      | None \<Rightarrow> startingBlock np - 1)"

text \<open>\<open>remoteBlockNumber\<close> is what the node answers to \<^verbatim>\<open>getBlockNumber()\<close>.\<close>

definition isSynchronized :: "NoteProcessor \<Rightarrow> int \<Rightarrow> bool" where
  "isSynchronized np remoteBlockNumber \<longleftrightarrow> getSyncedToBlock np = remoteBlockNumber"

record NoteProcessorStatus =
  syncedToBlock :: int

definition status :: "NoteProcessor \<Rightarrow> NoteProcessorStatus" where
  "status np = \<lparr>syncedToBlock = getSyncedToBlock np\<rparr>"

subsection \<open>The loops of \<open>process\<close>\<close>

text \<open>
  A \<^verbatim>\<open>for\<close> loop whose body may throw: the body maps the state to an optional error and
  the state it leaves behind; the loop stops at the first error.
\<close>

fun forEach :: "('a \<Rightarrow> 's \<Rightarrow> error option \<times> 's) \<Rightarrow> 'a list \<Rightarrow> 's \<Rightarrow> error option \<times> 's" where
  "forEach f [] s = (None, s)"
| "forEach f (x # xs) s =
     (case f x s of
        (Some e, s') \<Rightarrow> (Some e, s')
      | (None, s') \<Rightarrow> forEach f xs s')"

record ProcessedData =
  block :: L2Block
  pdIncomingNotes :: "IncomingNoteDao list"
  pdOutgoingNotes :: "OutgoingNoteDao list"

text \<open>The variables that the loops of \<open>process\<close> update, and \<^verbatim>\<open>this.stats\<close>.\<close>

record Locals =
  curStats :: NoteProcessorStats
  blocksAndNotes :: "ProcessedData list"
  deferredNoteDaosIncoming :: "DeferredNoteDao list"
  incomingNotes :: "IncomingNoteDao list"
  outgoingNotes :: "OutgoingNoteDao list"
  excludedIndices :: "nat set"

definition dataStartIndexForBlock :: "Collaborators \<Rightarrow> L2Block \<Rightarrow> int" where
  "dataStartIndexForBlock env blk =
     nextAvailableLeafIndex blk - numberOfTxsIncludingPadded blk * MAX_NEW_NOTE_HASHES_PER_TX env"

definition dataStartIndexForTx :: "Collaborators \<Rightarrow> L2Block \<Rightarrow> nat \<Rightarrow> int" where
  "dataStartIndexForTx env blk indexOfTxInABlock =
     dataStartIndexForBlock env blk + int indexOfTxInABlock * MAX_NEW_NOTE_HASHES_PER_TX env"

text \<open>
  Lines 178 to 206: the call of \<^verbatim>\<open>produceNoteDaos\<close> and what is done with its result.
  It is reached only for an index within the transaction effects of the block.
\<close>

definition collectNoteDaos ::
  "Collaborators \<Rightarrow> L2Block \<Rightarrow> nat \<Rightarrow> PublicKey option \<Rightarrow> PublicKey option \<Rightarrow> L1NotePayload
     \<Rightarrow> Locals \<Rightarrow> Locals" where
  "collectNoteDaos env blk indexOfTxInABlock ivpk ovpk payload s =
     (let (r, excl) = produceNoteDaos env ivpk ovpk payload
                        (txHash (txEffects blk ! indexOfTxInABlock))
                        (noteHashes (txEffects blk ! indexOfTxInABlock))
                        (dataStartIndexForTx env blk indexOfTxInABlock)
                        (excludedIndices s);
          s1 = s\<lparr>excludedIndices := excl\<rparr>;
          s2 = (case incomingNote r of
                  Some n \<Rightarrow> s1\<lparr>incomingNotes := incomingNotes s1 @ [n],
                              curStats := (curStats s1)\<lparr>decryptedIncoming := decryptedIncoming (curStats s1) + 1\<rparr>\<rparr>
                | None \<Rightarrow> s1);
          s3 = (case outgoingNote r of
                  Some n \<Rightarrow> s2\<lparr>outgoingNotes := outgoingNotes s2 @ [n],
                              curStats := (curStats s2)\<lparr>decryptedOutgoing := decryptedOutgoing (curStats s2) + 1\<rparr>\<rparr>
                | None \<Rightarrow> s2);
          s4 = (case incomingDeferredNote r of
                  Some n \<Rightarrow> s3\<lparr>deferredNoteDaosIncoming := deferredNoteDaosIncoming s3 @ [n],
                              curStats := (curStats s3)\<lparr>deferred := deferred (curStats s3) + 1\<rparr>\<rparr>
                | None \<Rightarrow> s3)
      in if incomingNote r = None \<and> outgoingNote r = None \<and> incomingDeferredNote r = None
         then s4\<lparr>curStats := (curStats s4)\<lparr>failed := failed (curStats s4) + 1\<rparr>\<rparr>
         else s4)"

text \<open>The body of the innermost loop, lines 163 to 207, for one log.\<close>

definition processLog ::
  "Collaborators \<Rightarrow> NoteProcessor \<Rightarrow> L2Block \<Rightarrow> nat \<Rightarrow> Buffer \<Rightarrow> Locals \<Rightarrow> error option \<times> Locals" where
  "processLog env np blk indexOfTxInABlock logData s =
     (let s1 = s\<lparr>curStats := (curStats s)\<lparr>seen := seen (curStats s) + 1\<rparr>\<rparr>
      in case (decryptAsIncoming env logData, decryptAsOutgoing env logData) of
           (None, None) \<Rightarrow> (None, s1)
         | (Some p, Some q) \<Rightarrow>
             if p \<noteq> q then (Some DecryptionPayloadConflict, s1)
             else (None, collectNoteDaos env blk indexOfTxInABlock (Some (ivpkM np)) (Some (ovpkM np)) p s1)
         | (Some p, None) \<Rightarrow>
             (None, collectNoteDaos env blk indexOfTxInABlock (Some (ivpkM np)) None p s1)
         | (None, Some q) \<Rightarrow>
             (None, collectNoteDaos env blk indexOfTxInABlock None (Some (ovpkM np)) q s1))"

text \<open>
  The body of the loop over the transactions of a block, lines 154 to 209. Reading
  \<^verbatim>\<open>block.body.txEffects[indexOfTxInABlock].noteHashes\<close> past the end of the effects throws.
\<close>

definition processTx ::
  "Collaborators \<Rightarrow> NoteProcessor \<Rightarrow> L2Block \<Rightarrow> EncryptedNoteL2BlockL2Logs \<Rightarrow> nat \<Rightarrow> Locals
     \<Rightarrow> error option \<times> Locals" where
  "processTx env np blk txLogs indexOfTxInABlock s =
     (let s1 = s\<lparr>curStats := (curStats s)\<lparr>txs := txs (curStats s) + 1\<rparr>\<rparr>
      in if indexOfTxInABlock < length (txEffects blk)
         then forEach (\<lambda>functionLogs. forEach (processLog env np blk indexOfTxInABlock) functionLogs)
                (txLogs ! indexOfTxInABlock) (s1\<lparr>excludedIndices := {}\<rparr>)
         else (Some TypeError, s1))"

text \<open>The body of the loop over the blocks, lines 140 to 216.\<close>

definition processBlock ::
  "Collaborators \<Rightarrow> NoteProcessor \<Rightarrow> L2Block \<Rightarrow> EncryptedNoteL2BlockL2Logs \<Rightarrow> Locals
     \<Rightarrow> error option \<times> Locals" where
  "processBlock env np blk txLogs s =
     (let s1 = s\<lparr>curStats := (curStats s)\<lparr>blocks := blocks (curStats s) + 1\<rparr>,
                 incomingNotes := [], outgoingNotes := []\<rparr>
      in case forEach (processTx env np blk txLogs) [0 ..< length txLogs] s1 of
           (Some e, s2) \<Rightarrow> (Some e, s2)
         | (None, s2) \<Rightarrow>
             (None, s2\<lparr>blocksAndNotes := blocksAndNotes s2 @
                         [\<lparr>block = blk, pdIncomingNotes = incomingNotes s2,
                           pdOutgoingNotes = outgoingNotes s2\<rparr>]\<rparr>))"

definition initialLocals :: "NoteProcessorStats \<Rightarrow> Locals" where
  "initialLocals st =
     \<lparr>curStats = st, blocksAndNotes = [], deferredNoteDaosIncoming = [],
      incomingNotes = [], outgoingNotes = [], excludedIndices = {}\<rparr>"

text \<open>The loop of lines 139 to 217, entered with equally many blocks and log batches.\<close>

definition decodeBlocks ::
  "Collaborators \<Rightarrow> NoteProcessor \<Rightarrow> L2Block list \<Rightarrow> EncryptedNoteL2BlockL2Logs list
     \<Rightarrow> error option \<times> Locals" where
  "decodeBlocks env np l2Blocks encryptedL2BlockLogs =
     forEach (\<lambda>blockIndex. processBlock env np (l2Blocks ! blockIndex) (encryptedL2BlockLogs ! blockIndex))
       [0 ..< length encryptedL2BlockLogs] (initialLocals (stats np))"

subsection \<open>Persisting\<close>

definition newNullifiers :: "ProcessedData list \<Rightarrow> Fr list" where
  "newNullifiers bns = concat (map (\<lambda>b. concat (map nullifiers (txEffects (block b)))) bns)"

definition processBlocksAndNotes :: "ProcessedData list \<Rightarrow> NoteProcessor \<Rightarrow> NoteProcessor" where
  "processBlocksAndNotes bns np =
     (let inc = concat (map pdIncomingNotes bns);
          out = concat (map pdOutgoingNotes bns);
          np1 = (if length inc \<noteq> 0 \<or> length out \<noteq> 0
                 then np\<lparr>db := addNotes inc out (db np), dbCalls := dbCalls np @ [AddNotes inc out]\<rparr>
                 else np);
          (removedNotes, d) = removeNullifiedNotes (newNullifiers bns) (ivpkM np1) (db np1)
      in np1\<lparr>db := d, dbCalls := dbCalls np1 @ [RemoveNullifiedNotes (newNullifiers bns) (ivpkM np1)]\<rparr>)"

definition processDeferredNotes :: "DeferredNoteDao list \<Rightarrow> NoteProcessor \<Rightarrow> NoteProcessor" where
  "processDeferredNotes deferredNoteDaos np =
     (if length deferredNoteDaos \<noteq> 0
      then np\<lparr>db := addDeferredNotes deferredNoteDaos (db np),
              dbCalls := dbCalls np @ [AddDeferredNotes deferredNoteDaos]\<rparr>
      else np)"

subsection \<open>\<open>process\<close>\<close>

text \<open>Lines 219 to 223: what \<open>process\<close> does once the loop has come to its end.\<close>

definition persistBatch :: "L2Block list \<Rightarrow> Locals \<Rightarrow> NoteProcessor \<Rightarrow> NoteProcessor" where
  "persistBatch l2Blocks s np =
     (let np1 = processBlocksAndNotes (blocksAndNotes s) np;
          np2 = processDeferredNotes (deferredNoteDaosIncoming s) np1;
          syncedToBlock = number (l2Blocks ! (length l2Blocks - 1))
      in np2\<lparr>db := setSynchedBlockNumberForPublicKey (ivpkM np2) syncedToBlock (db np2),
             dbCalls := dbCalls np2 @ [SetSynchedBlockNumberForPublicKey (ivpkM np2) syncedToBlock]\<rparr>)"

definition process ::
  "Collaborators \<Rightarrow> L2Block list \<Rightarrow> EncryptedNoteL2BlockL2Logs list \<Rightarrow> NoteProcessor
     \<Rightarrow> error option \<times> NoteProcessor" where
  "process env l2Blocks encryptedL2BlockLogs np =
     (if length l2Blocks \<noteq> length encryptedL2BlockLogs then (Some BatchLengthMismatch, np)
      else if length l2Blocks = 0 then (None, np)
      else case decodeBlocks env np l2Blocks encryptedL2BlockLogs of
             (Some e, s) \<Rightarrow> (Some e, np\<lparr>stats := curStats s\<rparr>)
           | (None, s) \<Rightarrow> (None, persistBatch l2Blocks s (np\<lparr>stats := curStats s\<rparr>)))"

subsection \<open>\<open>decodeDeferredNotes\<close>\<close>

text \<open>The body of the loop of lines 298 to 326; a record of another account is skipped.\<close>

definition decodeDeferredNote ::
  "Collaborators \<Rightarrow> NoteProcessor \<Rightarrow> DeferredNoteDao \<Rightarrow> Locals \<Rightarrow> error option \<times> Locals" where
  "decodeDeferredNote env np deferredNote s =
     (if deferredIvpkM deferredNote \<noteq> ivpkM np then (None, s)
      else
        let (r, excl) = produceNoteDaos env (Some (ivpkM np)) None (deferredPayload deferredNote)
                          (deferredTxHash deferredNote) (deferredNewNoteHashes deferredNote)
                          (deferredDataStartIndexForTx deferredNote) (excludedIndices s);
            s1 = s\<lparr>excludedIndices := excl\<rparr>
        in case incomingNote r of
             None \<Rightarrow> (Some DeferredRetryFailed, s1)
           | Some n \<Rightarrow>
               (None, s1\<lparr>incomingNotes := incomingNotes s1 @ [n],
                         curStats := (curStats s1)\<lparr>decryptedIncoming := decryptedIncoming (curStats s1) + 1\<rparr>\<rparr>))"

definition decodeDeferredNotes ::
  "Collaborators \<Rightarrow> DeferredNoteDao list \<Rightarrow> NoteProcessor
     \<Rightarrow> (error + IncomingNoteDao list) \<times> NoteProcessor" where
  "decodeDeferredNotes env deferredNoteDaos np =
     (case forEach (decodeDeferredNote env np) deferredNoteDaos (initialLocals (stats np)) of
        (Some e, s) \<Rightarrow> (Inl e, np\<lparr>stats := curStats s\<rparr>)
      | (None, s) \<Rightarrow> (Inr (incomingNotes s), np\<lparr>stats := curStats s\<rparr>))"

section \<open>P2P client\<close>

datatype P2PClientState = IDLE | SYNCHING | RUNNING | STOPPED

record P2PSyncState =
  state :: P2PClientState
  syncedToL2Block :: int

text \<open>A \<^verbatim>\<open>Promise<void>\<close> is either settled or not yet.\<close>

datatype Promise = Resolved | Pending

text \<open>
  Modelled from the spec: the declarations of transactions and of the pool class are
  missing. A pending transaction is known to the pool by its identifier; the pool maps
  identifiers to transactions.
\<close>

type_synonym TxId = nat

record Tx =
  txId :: TxId
  txData :: "nat list"

type_synonym TxPool = "(TxId \<times> Tx) list"

text \<open>Modelled from the spec: \<^verbatim>\<open>addAll(txs)\<close> of the pool.\<close>

fun setTx :: "Tx \<Rightarrow> TxPool \<Rightarrow> TxPool" where
  "setTx t [] = [(txId t, t)]"
| "setTx t (e # es) = (if fst e = txId t then (txId t, t) # es else e # setTx t es)"

definition addTxs :: "Tx list \<Rightarrow> TxPool \<Rightarrow> TxPool" where
  "addTxs ts pool = fold setTx ts pool"

text \<open>Modelled from the spec: \<^verbatim>\<open>deleteAll(txIds)\<close> of the pool.\<close>

definition deleteTxs :: "TxId list \<Rightarrow> TxPool \<Rightarrow> TxPool" where
  "deleteTxs ids pool = filter (\<lambda>e. fst e \<notin> set ids) pool"

text \<open>Modelled from the spec: \<^verbatim>\<open>getAll() -> list of tx\<close> of the pool.\<close>

definition getAllTxs :: "TxPool \<Rightarrow> Tx list" where
  "getAllTxs pool = map snd pool"

text \<open>
  Modelled from the spec: \<^verbatim>\<open>createTxIds\<close> is missing; the identifiers of a block are the
  transaction identifiers of its transaction effects.
\<close>

definition createTxIds :: "L2Block \<Rightarrow> TxId list" where
  "createTxIds blk = map txHash (txEffects blk)"

text \<open>What the client hands to its logger, in order.\<close>

datatype P2PLog =
    StartingSync int int
  | NextBlockBeyondLatest int int
  | StartedBlockDownloader int
  | StoppingClient
  | DeletingTx TxId
  | SynchedToBlock int
  | MovedToState P2PClientState

text \<open>
  The fields of the class. \<open>runningPromise\<close> is \<open>None\<close> until \<^verbatim>\<open>start\<close> assigns it;
  \<open>syncResolve\<close> tells whether the resolver of \<open>syncPromise\<close> is defined;
  \<open>downloaderFrom\<close> is the argument of \<^verbatim>\<open>blockDownloader.start\<close>, once called.
\<close>

record P2PClient =
  stopping :: bool
  runningPromise :: "Promise option"
  currentL2BlockNum :: int
  currentState :: P2PClientState
  syncPromise :: Promise
  latestBlockNumberAtStart :: int
  syncResolve :: bool
  txPool :: TxPool
  downloaderFrom :: "int option"
  logged :: "P2PLog list"

definition newP2PClient :: "TxPool \<Rightarrow> P2PClient" where
  "newP2PClient pool =
     \<lparr>stopping = False, runningPromise = None, currentL2BlockNum = 0, currentState = IDLE,
      syncPromise = Resolved, latestBlockNumberAtStart = - 1, syncResolve = False,
      txPool = pool, downloaderFrom = None, logged = []\<rparr>"

definition logP2P :: "P2PLog \<Rightarrow> P2PClient \<Rightarrow> P2PClient" where
  "logP2P m c = c\<lparr>logged := logged c @ [m]\<rparr>"

definition setCurrentState :: "P2PClientState \<Rightarrow> P2PClient \<Rightarrow> P2PClient" where
  "setCurrentState newState c = logP2P (MovedToState newState) (c\<lparr>currentState := newState\<rparr>)"

definition reconcileBlock :: "L2Block \<Rightarrow> P2PClient \<Rightarrow> P2PClient" where
  "reconcileBlock blk c =
     (let txIds = createTxIds blk;
          c1 = fold (\<lambda>i. logP2P (DeletingTx i)) txIds c
      in c1\<lparr>txPool := deleteTxs txIds (txPool c1)\<rparr>)"

definition reconcileTxPool :: "L2Block list \<Rightarrow> P2PClient \<Rightarrow> P2PClient" where
  "reconcileTxPool l2Blocks c = fold reconcileBlock l2Blocks c"

text \<open>
  \<open>handleL2Blocks\<close> gives up control once, at \<^verbatim>\<open>await this.reconcileTxPool(blocks)\<close>
  (line 243), where other calls may run and see the client. \<open>handleL2BlocksBegin\<close> is what
  it does with a batch that is not empty up to there, \<open>handleL2BlocksResume\<close> what it does
  when it resumes, lines 244 to 251.
\<close>

definition handleL2BlocksBegin :: "L2Block list \<Rightarrow> P2PClient \<Rightarrow> P2PClient" where
  "handleL2BlocksBegin l2Blocks c = reconcileTxPool l2Blocks c"

definition handleL2BlocksResume :: "L2Block list \<Rightarrow> P2PClient \<Rightarrow> P2PClient" where
  "handleL2BlocksResume l2Blocks c1 =
     (let c2 = c1\<lparr>currentL2BlockNum := number (l2Blocks ! (length l2Blocks - 1))\<rparr>;
          c3 = logP2P (SynchedToBlock (currentL2BlockNum c2)) c2
      in if currentState c3 = SYNCHING \<and> currentL2BlockNum c3 \<ge> latestBlockNumberAtStart c3
         then (let c4 = setCurrentState RUNNING c3
               in if syncResolve c4 then c4\<lparr>syncPromise := Resolved\<rparr> else c4)
         else c3)"

definition handleL2Blocks :: "L2Block list \<Rightarrow> P2PClient \<Rightarrow> P2PClient" where
  "handleL2Blocks l2Blocks c =
     (if length l2Blocks = 0 then c
      else handleL2BlocksResume l2Blocks (handleL2BlocksBegin l2Blocks c))"

text \<open>
  \<open>start\<close>, with \<open>latest\<close> the answer of the block source to \<^verbatim>\<open>getLatestBlockNum()\<close>, when
  nothing else runs while it waits for that answer. The loop \<^verbatim>\<open>blockProcess\<close> it launches
  is entered unless the client is stopping already.
\<close>

definition start :: "int \<Rightarrow> P2PClient \<Rightarrow> (error + Promise) \<times> P2PClient" where
  "start latest c =
     (if currentState c = STOPPED then (Inl AlreadyStopped, c)
      else if currentState c \<noteq> IDLE then (Inr (syncPromise c), c)
      else
        let c1 = c\<lparr>latestBlockNumberAtStart := latest\<rparr>;
            blockToDownloadFrom = currentL2BlockNum c1 + 1;
            c2 = (if blockToDownloadFrom \<le> latestBlockNumberAtStart c1
                  then logP2P (StartingSync blockToDownloadFrom (latestBlockNumberAtStart c1))
                         ((setCurrentState SYNCHING c1)\<lparr>syncPromise := Pending, syncResolve := True\<rparr>)
                  else logP2P (NextBlockBeyondLatest blockToDownloadFrom (latestBlockNumberAtStart c1))
                         ((setCurrentState RUNNING c1)\<lparr>syncPromise := Resolved\<rparr>));
            c3 = c2\<lparr>runningPromise := Some (if stopping c2 then Resolved else Pending),
                    downloaderFrom := Some blockToDownloadFrom\<rparr>;
            c4 = logP2P (StartedBlockDownloader blockToDownloadFrom) c3
        in (Inr (syncPromise c4), c4))"

text \<open>
  \<open>start\<close> gives up control once, at \<^verbatim>\<open>await this.l2BlockSource.getLatestBlockNum()\<close>
  (line 127), after its two checks of the state. \<open>startCheck\<close> is the part before, lines
  119 to 124: it tells what the call throws or returns there, or \<open>None\<close> when the call goes
  on to wait. \<open>startResume\<close> is the part after, lines 127 to 155, run in whatever state
  the client is in by then: the code does not look at the state again.
\<close>

definition startCheck :: "P2PClient \<Rightarrow> (error + Promise) option" where
  "startCheck c =
     (if currentState c = STOPPED then Some (Inl AlreadyStopped)
      else if currentState c \<noteq> IDLE then Some (Inr (syncPromise c))
      else None)"

definition startResume :: "int \<Rightarrow> P2PClient \<Rightarrow> (error + Promise) \<times> P2PClient" where
  "startResume latest c =
     (let c1 = c\<lparr>latestBlockNumberAtStart := latest\<rparr>;
          blockToDownloadFrom = currentL2BlockNum c1 + 1;
          c2 = (if blockToDownloadFrom \<le> latestBlockNumberAtStart c1
                then logP2P (StartingSync blockToDownloadFrom (latestBlockNumberAtStart c1))
                       ((setCurrentState SYNCHING c1)\<lparr>syncPromise := Pending, syncResolve := True\<rparr>)
                else logP2P (NextBlockBeyondLatest blockToDownloadFrom (latestBlockNumberAtStart c1))
                       ((setCurrentState RUNNING c1)\<lparr>syncPromise := Resolved\<rparr>));
          c3 = c2\<lparr>runningPromise := Some (if stopping c2 then Resolved else Pending),
                  downloaderFrom := Some blockToDownloadFrom\<rparr>;
          c4 = logP2P (StartedBlockDownloader blockToDownloadFrom) c3
      in (Inr (syncPromise c4), c4))"

text \<open>
  One turn of the loop \<^verbatim>\<open>blockProcess\<close>, with \<open>l2Blocks\<close> what the downloader returned, when
  nothing else runs during the turn.
\<close>

definition blockProcess :: "L2Block list \<Rightarrow> P2PClient \<Rightarrow> P2PClient" where
  "blockProcess l2Blocks c =
     (if runningPromise c = Some Pending \<and> \<not> stopping c then handleL2Blocks l2Blocks c else c)"

text \<open>
  \<open>stop\<close>, when no other call runs while it waits. Waiting for \<open>runningPromise\<close> lets the
  turn of the loop that is under way finish: \<open>inFlight\<close> is what its call of the downloader
  returns once the downloader has been told to stop.
\<close>

definition stop :: "L2Block list \<Rightarrow> P2PClient \<Rightarrow> P2PClient" where
  "stop inFlight c =
     (let c1 = (logP2P StoppingClient c)\<lparr>stopping := True\<rparr>;
          c2 = (if runningPromise c1 = Some Pending
                then (handleL2Blocks inFlight c1)\<lparr>runningPromise := Some Resolved\<rparr>
                else c1)
      in setCurrentState STOPPED c2)"

definition getTxs :: "P2PClient \<Rightarrow> Tx list" where
  "getTxs c = getAllTxs (txPool c)"

definition isReady :: "P2PClient \<Rightarrow> bool" where
  "isReady c \<longleftrightarrow> currentState c = RUNNING"

definition sendTx :: "Tx \<Rightarrow> P2PClient \<Rightarrow> error option \<times> P2PClient" where
  "sendTx tx c =
     (if \<not> isReady c then (Some NotReady, c)
      else (None, c\<lparr>txPool := addTxs [tx] (txPool c)\<rparr>))"

definition getSyncedBlockNum :: "P2PClient \<Rightarrow> int" where
  "getSyncedBlockNum c = currentL2BlockNum c"

definition getStatus :: "P2PClient \<Rightarrow> P2PSyncState" where
  "getStatus c = \<lparr>state = currentState c, syncedToL2Block = currentL2BlockNum c\<rparr>"

section \<open>Sample data\<close>

text \<open>
  A small world on which the theorems below are exercised. Its note hash is the storage
  slot and its nullifier the note type, contract 99 has no code yet, the log \<open>[3]\<close>
  decrypts to two different payloads under the two keys.
\<close>

definition samplePayloadA :: L1NotePayload where
  "samplePayloadA = \<lparr>noteContent = [1], contractAddress = 10, storageSlot = 20, noteTypeId = 30\<rparr>"

definition samplePayloadB :: L1NotePayload where
  "samplePayloadB = \<lparr>noteContent = [2], contractAddress = 99, storageSlot = 21, noteTypeId = 31\<rparr>"

definition sampleProduceNoteDaos ::
  "PublicKey option \<Rightarrow> PublicKey option \<Rightarrow> L1NotePayload \<Rightarrow> TxHash \<Rightarrow> Fr list \<Rightarrow> int \<Rightarrow> nat set
     \<Rightarrow> NoteDaos \<times> nat set" where
  "sampleProduceNoteDaos ivpk ovpk payload h hashes startIndex excl =
     (let out = map_option (\<lambda>k. \<lparr>outgoingPayload = payload, outgoingTxHash = h, outgoingOvpkM = k\<rparr>) ovpk
      in case ivpk of
           None \<Rightarrow> (\<lparr>incomingNote = None, outgoingNote = out, incomingDeferredNote = None\<rparr>, excl)
         | Some k \<Rightarrow>
             if contractAddress payload = 99
             then (\<lparr>incomingNote = None, outgoingNote = out,
                    incomingDeferredNote =
                      Some \<lparr>deferredIvpkM = k, deferredPayload = payload, deferredTxHash = h,
                            deferredNewNoteHashes = hashes, deferredDataStartIndexForTx = startIndex\<rparr>\<rparr>,
                   excl)
             else (case find (\<lambda>e. fst e \<notin> excl \<and> snd e = storageSlot payload) (enumerate 0 hashes) of
                     None \<Rightarrow> (\<lparr>incomingNote = None, outgoingNote = out, incomingDeferredNote = None\<rparr>, excl)
                   | Some e \<Rightarrow>
                       (\<lparr>incomingNote =
                           Some \<lparr>incomingPayload = payload, incomingTxHash = h,
                                 siloedNullifier = noteTypeId payload,
                                 noteIndex = startIndex + int (fst e), incomingIvpkM = k\<rparr>,
                         outgoingNote = out, incomingDeferredNote = None\<rparr>,
                        insert (fst e) excl)))"

definition sampleEnv :: Collaborators where
  "sampleEnv =
     \<lparr>decryptAsIncoming =
        (\<lambda>d. if d = [1] \<or> d = [3] then Some samplePayloadA
              else if d = [2] then Some samplePayloadB else None),
      decryptAsOutgoing =
        (\<lambda>d. if d = [3] then Some samplePayloadB else if d = [4] then Some samplePayloadA else None),
      produceNoteDaos = sampleProduceNoteDaos,
      MAX_NEW_NOTE_HASHES_PER_TX = 64\<rparr>"

definition emptyStats :: NoteProcessorStats where
  "emptyStats = \<lparr>seen = 0, decryptedIncoming = 0, decryptedOutgoing = 0, deferred = 0,
                 failed = 0, blocks = 0, txs = 0\<rparr>"

definition emptyDatabase :: PxeDatabase where
  "emptyDatabase = \<lparr>incomingStore = [], outgoingStore = [], deferredStore = [],
                    synchedBlockNumbers = Map.empty\<rparr>"

definition sampleProcessor :: NoteProcessor where
  "sampleProcessor =
     \<lparr>account = 1, ivpkM = 11, ovpkM = 12, startingBlock = 1, db = emptyDatabase,
      stats = emptyStats, dbCalls = []\<rparr>"

definition sampleBlock5 :: L2Block where
  "sampleBlock5 =
     \<lparr>number = 5, nextAvailableLeafIndex = 128, numberOfTxsIncludingPadded = 2,
      txEffects = [\<lparr>txHash = 500, noteHashes = [20], nullifiers = []\<rparr>]\<rparr>"

definition sampleLogs5 :: EncryptedNoteL2BlockL2Logs where
  "sampleLogs5 = [[[[1], [2]]]]"

definition sampleBlock6 :: L2Block where
  "sampleBlock6 =
     \<lparr>number = 6, nextAvailableLeafIndex = 256, numberOfTxsIncludingPadded = 2,
      txEffects = [\<lparr>txHash = 600, noteHashes = [], nullifiers = [30]\<rparr>]\<rparr>"

definition sampleLogs6 :: EncryptedNoteL2BlockL2Logs where
  "sampleLogs6 = [[[[3]]]]"

definition sampleBlock3 :: L2Block where
  "sampleBlock3 =
     \<lparr>number = 3, nextAvailableLeafIndex = 64, numberOfTxsIncludingPadded = 1, txEffects = []\<rparr>"

definition sampleDeferredForeign :: DeferredNoteDao where
  "sampleDeferredForeign =
     \<lparr>deferredIvpkM = 77, deferredPayload = samplePayloadA, deferredTxHash = 500,
      deferredNewNoteHashes = [20], deferredDataStartIndexForTx = 0\<rparr>"

definition sampleDeferredFailing :: DeferredNoteDao where
  "sampleDeferredFailing =
     \<lparr>deferredIvpkM = 11, deferredPayload = samplePayloadA, deferredTxHash = 500,
      deferredNewNoteHashes = [], deferredDataStartIndexForTx = 0\<rparr>"

definition sampleNoteA :: IncomingNoteDao where
  "sampleNoteA = \<lparr>incomingPayload = samplePayloadA, incomingTxHash = 500, siloedNullifier = 30,
                  noteIndex = 0, incomingIvpkM = 11\<rparr>"

definition sampleDeferredB :: DeferredNoteDao where
  "sampleDeferredB = \<lparr>deferredIvpkM = 11, deferredPayload = samplePayloadB, deferredTxHash = 500,
                      deferredNewNoteHashes = [20], deferredDataStartIndexForTx = 0\<rparr>"

definition sampleLogsOut :: EncryptedNoteL2BlockL2Logs where
  "sampleLogsOut = [[[[4]]]]"

definition sampleOutA :: OutgoingNoteDao where
  "sampleOutA = \<lparr>outgoingPayload = samplePayloadA, outgoingTxHash = 600, outgoingOvpkM = 12\<rparr>"

definition sampleBlock4 :: L2Block where
  "sampleBlock4 =
     \<lparr>number = 4, nextAvailableLeafIndex = 64, numberOfTxsIncludingPadded = 1,
      txEffects = [\<lparr>txHash = 400, noteHashes = [], nullifiers = [30]\<rparr>]\<rparr>"

text \<open>The sample processor once it has processed block 5 with its logs.\<close>

definition sampleProcessorAt5 :: NoteProcessor where
  "sampleProcessorAt5 =
     sampleProcessor
        \<lparr>db := \<lparr>incomingStore = [sampleNoteA], outgoingStore = [], deferredStore = [sampleDeferredB],
                synchedBlockNumbers = [11 \<mapsto> 5]\<rparr>,
          stats := \<lparr>seen = 2, decryptedIncoming = 1, decryptedOutgoing = 0, deferred = 1,
                          failed = 0, blocks = 1, txs = 1\<rparr>,
          dbCalls := [AddNotes [sampleNoteA] [], RemoveNullifiedNotes [] 11,
                      AddDeferredNotes [sampleDeferredB], SetSynchedBlockNumberForPublicKey 11 5]\<rparr>"

section \<open>Notions used in the statements\<close>

definition payloadsConflict :: "Collaborators \<Rightarrow> Buffer \<Rightarrow> bool" where
  "payloadsConflict env logData \<longleftrightarrow>
     (case (decryptAsIncoming env logData, decryptAsOutgoing env logData) of
        (Some p, Some q) \<Rightarrow> p \<noteq> q
      | _ \<Rightarrow> False)"

definition allLogs :: "EncryptedNoteL2BlockL2Logs list \<Rightarrow> Buffer list" where
  "allLogs encryptedL2BlockLogs = concat (concat (concat encryptedL2BlockLogs))"

text \<open>The nullifiers emitted by all transactions of a list of blocks.\<close>

definition emittedNullifiers :: "L2Block list \<Rightarrow> Fr list" where
  "emittedNullifiers l2Blocks = concat (map (\<lambda>b. concat (map nullifiers (txEffects b))) l2Blocks)"

text \<open>What the loop of \<open>process\<close> has accumulated for a batch when it ends.\<close>

definition decodedIncoming ::
  "Collaborators \<Rightarrow> NoteProcessor \<Rightarrow> L2Block list \<Rightarrow> EncryptedNoteL2BlockL2Logs list \<Rightarrow> IncomingNoteDao list" where
  "decodedIncoming env np l2Blocks encryptedL2BlockLogs =
     concat (map pdIncomingNotes (blocksAndNotes (snd (decodeBlocks env np l2Blocks encryptedL2BlockLogs))))"

definition decodedOutgoing ::
  "Collaborators \<Rightarrow> NoteProcessor \<Rightarrow> L2Block list \<Rightarrow> EncryptedNoteL2BlockL2Logs list \<Rightarrow> OutgoingNoteDao list" where
  "decodedOutgoing env np l2Blocks encryptedL2BlockLogs =
     concat (map pdOutgoingNotes (blocksAndNotes (snd (decodeBlocks env np l2Blocks encryptedL2BlockLogs))))"

definition decodedDeferred ::
  "Collaborators \<Rightarrow> NoteProcessor \<Rightarrow> L2Block list \<Rightarrow> EncryptedNoteL2BlockL2Logs list \<Rightarrow> DeferredNoteDao list" where
  "decodedDeferred env np l2Blocks encryptedL2BlockLogs =
     deferredNoteDaosIncoming (snd (decodeBlocks env np l2Blocks encryptedL2BlockLogs))"

definition isWatermarkWrite :: "DbCall \<Rightarrow> bool" where
  "isWatermarkWrite c \<longleftrightarrow> (case c of SetSynchedBlockNumberForPublicKey k n \<Rightarrow> True | _ \<Rightarrow> False)"

section \<open>Notions used in the proofs\<close>

text \<open>
  The loop variables \<open>s'\<close> of a run that goes on after earlier blocks, against the
  variables \<open>s\<close> of a run that starts afresh: the same but for what the earlier blocks
  left in the accumulators.
\<close>

definition continues :: "DeferredNoteDao list \<Rightarrow> ProcessedData list \<Rightarrow> Locals \<Rightarrow> Locals \<Rightarrow> bool" where
  "continues pd pbn s s' \<longleftrightarrow>
     curStats s' = curStats s \<and> blocksAndNotes s' = pbn @ blocksAndNotes s
     \<and> deferredNoteDaosIncoming s' = pd @ deferredNoteDaosIncoming s"

definition continuesTx :: "DeferredNoteDao list \<Rightarrow> ProcessedData list \<Rightarrow> Locals \<Rightarrow> Locals \<Rightarrow> bool" where
  "continuesTx pd pbn s s' \<longleftrightarrow>
     continues pd pbn s s' \<and> incomingNotes s' = incomingNotes s \<and> outgoingNotes s' = outgoingNotes s"

definition continuesLog :: "DeferredNoteDao list \<Rightarrow> ProcessedData list \<Rightarrow> Locals \<Rightarrow> Locals \<Rightarrow> bool" where
  "continuesLog pd pbn s s' \<longleftrightarrow> continuesTx pd pbn s s' \<and> excludedIndices s' = excludedIndices s"

section \<open>Loops\<close>

lemma forEach_Cons:
  "forEach f (x # xs) s =
     (case fst (f x s) of None \<Rightarrow> forEach f xs (snd (f x s)) | Some e \<Rightarrow> (Some e, snd (f x s)))"
  by (simp split: prod.splits option.splits)

lemma forEach_append:
  "forEach f (xs @ ys) s =
     (case fst (forEach f xs s) of
        None \<Rightarrow> forEach f ys (snd (forEach f xs s))
      | Some e \<Rightarrow> (Some e, snd (forEach f xs s)))"
  by (induction xs arbitrary: s) (simp_all split: prod.splits option.splits)

lemma forEach_map: "forEach f (map g xs) s = forEach (\<lambda>x. f (g x)) xs s"
  by (induction xs arbitrary: s) (simp_all split: prod.splits option.splits)

text \<open>Two runs of a loop from related states stay related and stop with the same error.\<close>

lemma forEach_rel:
  assumes "\<And>x s s'. x \<in> set xs \<Longrightarrow> R s s' \<Longrightarrow>
             fst (f x s) = fst (f' x s') \<and> R (snd (f x s)) (snd (f' x s'))"
      and "R s s'"
  shows "fst (forEach f xs s) = fst (forEach f' xs s')
         \<and> R (snd (forEach f xs s)) (snd (forEach f' xs s'))"
  using assms
proof (induction xs arbitrary: s s')
  case Nil
  then show ?case by simp
next
  case (Cons x xs)
  have h: "fst (f x s) = fst (f' x s') \<and> R (snd (f x s)) (snd (f' x s'))"
    using Cons.prems by simp
  show ?case
  proof (cases "fst (f x s)")
    case None
    then have n': "fst (f' x s') = None" using h by simp
    have "fst (forEach f xs (snd (f x s))) = fst (forEach f' xs (snd (f' x s')))
          \<and> R (snd (forEach f xs (snd (f x s)))) (snd (forEach f' xs (snd (f' x s'))))"
      using Cons.prems(1) h by (intro Cons.IH) simp_all
    then show ?thesis unfolding forEach_Cons None n' by simp
  next
    case (Some e)
    then have n': "fst (f' x s') = Some e" using h by simp
    show ?thesis unfolding forEach_Cons Some n' using h by simp
  qed
qed

lemma forEach_inv:
  assumes "\<And>x s. x \<in> set xs \<Longrightarrow> P s \<Longrightarrow> P (snd (f x s))" and "P s"
  shows "P (snd (forEach f xs s))"
  using assms
proof (induction xs arbitrary: s)
  case Nil
  then show ?case by simp
next
  case (Cons x xs)
  have p: "P (snd (f x s))" using Cons.prems by simp
  show ?case
  proof (cases "fst (f x s)")
    case None
    have "P (snd (forEach f xs (snd (f x s))))"
      using Cons.prems(1) p by (intro Cons.IH) simp_all
    then show ?thesis unfolding forEach_Cons None by simp
  next
    case (Some e)
    show ?thesis unfolding forEach_Cons Some using p by simp
  qed
qed

lemma forEach_errors:
  assumes "\<And>x s. x \<in> set xs \<Longrightarrow> fst (f x s) = None \<or> fst (f x s) = Some e"
  shows "fst (forEach f xs s) = None \<or> fst (forEach f xs s) = Some e"
  using assms
proof (induction xs arbitrary: s)
  case Nil
  then show ?case by simp
next
  case (Cons x xs)
  have h: "fst (f x s) = None \<or> fst (f x s) = Some e" using Cons.prems by simp
  show ?case
  proof (cases "fst (f x s)")
    case None
    have "fst (forEach f xs (snd (f x s))) = None \<or> fst (forEach f xs (snd (f x s))) = Some e"
      using Cons.prems by (intro Cons.IH) simp_all
    then show ?thesis unfolding forEach_Cons None by simp
  next
    case (Some e')
    show ?thesis unfolding forEach_Cons using h Some by simp
  qed
qed

lemma forEach_fails:
  assumes "x \<in> set xs" and "\<And>s. fst (f x s) \<noteq> None"
  shows "fst (forEach f xs s) \<noteq> None"
  using assms
proof (induction xs arbitrary: s)
  case Nil
  then show ?case by simp
next
  case (Cons y ys)
  show ?case
  proof (cases "fst (f y s)")
    case None
    then have "x \<noteq> y" using Cons.prems(2) [of s] by auto
    then have "x \<in> set ys" using Cons.prems(1) by simp
    then have "fst (forEach f ys (snd (f y s))) \<noteq> None" using Cons.prems(2) by (intro Cons.IH)
    then show ?thesis unfolding forEach_Cons None by simp
  next
    case (Some e)
    show ?thesis unfolding forEach_Cons Some by simp
  qed
qed

lemma upt_zip_nth:
  "length xs = length ys \<Longrightarrow> map (\<lambda>i. (xs ! i, ys ! i)) [0 ..< length ys] = zip xs ys"
  by (rule nth_equalityI) simp_all

text \<open>With equally many blocks and log batches, the indexed loop walks the two lists in step.\<close>

lemma decodeBlocks_zip:
  assumes "length l2Blocks = length encryptedL2BlockLogs"
  shows "decodeBlocks env np l2Blocks encryptedL2BlockLogs =
           forEach (\<lambda>p. processBlock env np (fst p) (snd p)) (zip l2Blocks encryptedL2BlockLogs)
             (initialLocals (stats np))"
proof -
  have "forEach (\<lambda>p. processBlock env np (fst p) (snd p))
          (map (\<lambda>i. (l2Blocks ! i, encryptedL2BlockLogs ! i)) [0 ..< length encryptedL2BlockLogs])
          (initialLocals (stats np))
        = decodeBlocks env np l2Blocks encryptedL2BlockLogs"
    by (simp add: forEach_map decodeBlocks_def)
  then show ?thesis using assms by (simp add: upt_zip_nth)
qed

section \<open>The sample data, evaluated\<close>

lemmas sample_defs =
  sampleEnv_def sampleProduceNoteDaos_def samplePayloadA_def samplePayloadB_def
  sampleProcessor_def emptyStats_def emptyDatabase_def sampleBlock5_def sampleLogs5_def
  sampleBlock6_def sampleLogs6_def sampleBlock3_def sampleDeferredForeign_def sampleDeferredFailing_def
  sampleNoteA_def sampleDeferredB_def sampleLogsOut_def sampleOutA_def sampleBlock4_def
  sampleProcessorAt5_def

lemmas process_defs =
  process_def persistBatch_def decodeBlocks_def processBlock_def processTx_def processLog_def
  collectNoteDaos_def initialLocals_def dataStartIndexForTx_def dataStartIndexForBlock_def
  processBlocksAndNotes_def processDeferredNotes_def newNullifiers_def
  addNotes_def addDeferredNotes_def removeNullifiedNotes_def isNullified_def
  setSynchedBlockNumberForPublicKey_def getSynchedBlockNumberForPublicKey_def getSyncedToBlock_def

lemma sample_decode5:
  "decodeBlocks sampleEnv sampleProcessor [sampleBlock5] [sampleLogs5] =
     (None, \<lparr>curStats = \<lparr>seen = 2, decryptedIncoming = 1, decryptedOutgoing = 0, deferred = 1,
                          failed = 0, blocks = 1, txs = 1\<rparr>,
             blocksAndNotes = [\<lparr>block = sampleBlock5, pdIncomingNotes = [sampleNoteA], pdOutgoingNotes = []\<rparr>],
             deferredNoteDaosIncoming = [sampleDeferredB],
             incomingNotes = [sampleNoteA], outgoingNotes = [], excludedIndices = {0}\<rparr>)"
  by (simp add: process_defs sample_defs Let_def)

lemmas p2p_defs =
  start_def startCheck_def startResume_def stop_def blockProcess_def handleL2Blocks_def
  handleL2BlocksBegin_def handleL2BlocksResume_def reconcileTxPool_def reconcileBlock_def
  createTxIds_def deleteTxs_def addTxs_def getAllTxs_def getTxs_def isReady_def sendTx_def
  getSyncedBlockNum_def getStatus_def newP2PClient_def setCurrentState_def logP2P_def

lemma sample_process5:
  "process sampleEnv [sampleBlock5] [sampleLogs5] sampleProcessor =
     (None, sampleProcessor
        \<lparr>db := \<lparr>incomingStore = [sampleNoteA], outgoingStore = [], deferredStore = [sampleDeferredB],
                synchedBlockNumbers = [11 \<mapsto> 5]\<rparr>,
          stats := \<lparr>seen = 2, decryptedIncoming = 1, decryptedOutgoing = 0, deferred = 1,
                          failed = 0, blocks = 1, txs = 1\<rparr>,
          dbCalls := [AddNotes [sampleNoteA] [], RemoveNullifiedNotes [] 11,
                      AddDeferredNotes [sampleDeferredB], SetSynchedBlockNumberForPublicKey 11 5]\<rparr>)"
  by (simp add: process_def sample_decode5)
     (simp add: process_defs sample_defs Let_def)

lemma sample_process5_at5:
  "process sampleEnv [sampleBlock5] [sampleLogs5] sampleProcessor = (None, sampleProcessorAt5)"
  by (simp add: sample_process5 sampleProcessorAt5_def)

lemma sample_getSyncedToBlock:
  "getSyncedToBlock sampleProcessor = 0" "getSyncedToBlock sampleProcessorAt5 = 5"
  by (simp_all add: getSyncedToBlock_def getSynchedBlockNumberForPublicKey_def sample_defs)

lemma sample_process6:
  "process sampleEnv [sampleBlock6] [sampleLogsOut] sampleProcessorAt5 =
     (None, sampleProcessor
        \<lparr>db := \<lparr>incomingStore = [], outgoingStore = [sampleOutA], deferredStore = [sampleDeferredB],
                synchedBlockNumbers = [11 \<mapsto> 6]\<rparr>,
          stats := \<lparr>seen = 3, decryptedIncoming = 1, decryptedOutgoing = 1, deferred = 1,
                          failed = 0, blocks = 2, txs = 2\<rparr>,
          dbCalls := [AddNotes [sampleNoteA] [], RemoveNullifiedNotes [] 11,
                      AddDeferredNotes [sampleDeferredB], SetSynchedBlockNumberForPublicKey 11 5,
                      AddNotes [] [sampleOutA], RemoveNullifiedNotes [30] 11,
                      SetSynchedBlockNumberForPublicKey 11 6]\<rparr>)"
  by (simp add: process_defs sample_defs Let_def)

lemma sample_process56:
  "process sampleEnv [sampleBlock5, sampleBlock6] [sampleLogs5, sampleLogsOut] sampleProcessor =
     (None, sampleProcessor
        \<lparr>db := \<lparr>incomingStore = [], outgoingStore = [sampleOutA], deferredStore = [sampleDeferredB],
                synchedBlockNumbers = [11 \<mapsto> 6]\<rparr>,
          stats := \<lparr>seen = 3, decryptedIncoming = 1, decryptedOutgoing = 1, deferred = 1,
                          failed = 0, blocks = 2, txs = 2\<rparr>,
          dbCalls := [AddNotes [sampleNoteA] [sampleOutA], RemoveNullifiedNotes [30] 11,
                      AddDeferredNotes [sampleDeferredB], SetSynchedBlockNumberForPublicKey 11 6]\<rparr>)"
  by (simp add: process_defs sample_defs Let_def)

lemma sample_process56_conflict:
  "process sampleEnv [sampleBlock5, sampleBlock6] [sampleLogs5, sampleLogs6] sampleProcessor =
     (Some DecryptionPayloadConflict, sampleProcessor
        \<lparr>stats := \<lparr>seen = 3, decryptedIncoming = 1, decryptedOutgoing = 0, deferred = 1,
                          failed = 0, blocks = 2, txs = 2\<rparr>\<rparr>)"
  by (simp add: process_defs sample_defs Let_def)

lemma sample_process6_conflict:
  "process sampleEnv [sampleBlock6] [sampleLogs6] sampleProcessorAt5 =
     (Some DecryptionPayloadConflict, sampleProcessorAt5
        \<lparr>stats := \<lparr>seen = 3, decryptedIncoming = 1, decryptedOutgoing = 0, deferred = 1,
                          failed = 0, blocks = 2, txs = 2\<rparr>\<rparr>)"
  by (simp add: process_defs sample_defs Let_def)

section \<open>Synchronisation status of the note processor\<close>

text \<open>
  C10. While the database holds no synched block number for the processor's incoming
  viewing key, \<open>status.syncedToBlock\<close> is the starting block minus one, and
  \<open>isSynchronized\<close> compares that same value with the remote block number.
\<close>

theorem getSyncedToBlock_default:
  "getSynchedBlockNumberForPublicKey (db np) (ivpkM np) = None \<Longrightarrow>
     syncedToBlock (status np) = startingBlock np - 1
     \<and> (isSynchronized np remoteBlockNumber \<longleftrightarrow> startingBlock np - 1 = remoteBlockNumber)"
  by (simp add: status_def isSynchronized_def getSyncedToBlock_def)

theorem getSyncedToBlock_default_witness:
  "getSynchedBlockNumberForPublicKey (db sampleProcessor) (ivpkM sampleProcessor) = None
   \<and> syncedToBlock (status sampleProcessor) = 0
   \<and> isSynchronized sampleProcessor 0 \<and> \<not> isSynchronized sampleProcessor 1"
proof -
  have h: "getSynchedBlockNumberForPublicKey (db sampleProcessor) (ivpkM sampleProcessor) = None"
    by (simp add: getSynchedBlockNumberForPublicKey_def sampleProcessor_def emptyDatabase_def)
  show ?thesis
    using h getSyncedToBlock_default [OF h, of 0] getSyncedToBlock_default [OF h, of 1]
    by (simp add: sampleProcessor_def)
qed

section \<open>Rejected and empty batches\<close>

text \<open>
  C4. When the number of blocks differs from the number of log batches, \<open>process\<close> fails
  at once and leaves the processor, hence its database and its synched block number, as
  they were; on two empty lists it does nothing.
\<close>

theorem process_mismatch_or_empty:
  "(length l2Blocks \<noteq> length encryptedL2BlockLogs \<longrightarrow>
      process env l2Blocks encryptedL2BlockLogs np = (Some BatchLengthMismatch, np)
      \<and> getSyncedToBlock (snd (process env l2Blocks encryptedL2BlockLogs np)) = getSyncedToBlock np)
   \<and> process env [] [] np = (None, np)"
  by (simp add: process_def)

theorem process_mismatch_or_empty_witness:
  "length [sampleBlock5] \<noteq> length ([] :: EncryptedNoteL2BlockL2Logs list)
   \<and> process sampleEnv [sampleBlock5] [] sampleProcessor = (Some BatchLengthMismatch, sampleProcessor)
   \<and> process sampleEnv [] [] sampleProcessor = (None, sampleProcessor)"
  using process_mismatch_or_empty [of "[sampleBlock5]" "[]" sampleEnv sampleProcessor]
  by simp

section \<open>Leaf index offsets\<close>

lemma collectNoteDaos_offset:
  "collectNoteDaos (env\<lparr>produceNoteDaos := \<lambda>iv ov p h hs off.
       produceNoteDaos env iv ov p h hs
         (nextAvailableLeafIndex blk - numberOfTxsIncludingPadded blk * MAX_NEW_NOTE_HASHES_PER_TX env
            + int i * MAX_NEW_NOTE_HASHES_PER_TX env)\<rparr>) blk i iv ov p s
   = collectNoteDaos env blk i iv ov p s"
  by (simp add: collectNoteDaos_def dataStartIndexForTx_def dataStartIndexForBlock_def)

lemma processLog_offset:
  "processLog (env\<lparr>produceNoteDaos := \<lambda>iv ov p h hs off.
       produceNoteDaos env iv ov p h hs
         (nextAvailableLeafIndex blk - numberOfTxsIncludingPadded blk * MAX_NEW_NOTE_HASHES_PER_TX env
            + int i * MAX_NEW_NOTE_HASHES_PER_TX env)\<rparr>) np blk i
   = processLog env np blk i"
  by (intro ext) (simp add: processLog_def collectNoteDaos_offset Let_def split: option.splits)

text \<open>
  C6. The offset of the first transaction of a block is the header's next available leaf
  index minus the padded number of transactions times the maximal number of note hashes
  of a transaction, and the offset of the transaction at index \<open>i\<close> is the offset of the
  block plus \<open>i\<close> times that maximum. It is the offset that every call of
  \<open>produceNoteDaos\<close> for that transaction is handed: nothing changes when
  \<open>produceNoteDaos\<close> is made to take this value in place of the offset it is given.
\<close>

theorem dataStartIndex_offsets:
  "dataStartIndexForBlock env blk =
     nextAvailableLeafIndex blk - numberOfTxsIncludingPadded blk * MAX_NEW_NOTE_HASHES_PER_TX env
   \<and> dataStartIndexForTx env blk 0 = dataStartIndexForBlock env blk
   \<and> dataStartIndexForTx env blk i =
       dataStartIndexForBlock env blk + int i * MAX_NEW_NOTE_HASHES_PER_TX env
   \<and> processTx env np blk txLogs i s =
       processTx (env\<lparr>produceNoteDaos := \<lambda>iv ov p h hs off.
           produceNoteDaos env iv ov p h hs
             (nextAvailableLeafIndex blk - numberOfTxsIncludingPadded blk * MAX_NEW_NOTE_HASHES_PER_TX env
                + int i * MAX_NEW_NOTE_HASHES_PER_TX env)\<rparr>) np blk txLogs i s"
  by (simp add: dataStartIndexForTx_def dataStartIndexForBlock_def processTx_def processLog_offset Let_def)

section \<open>The P2P client: states\<close>

lemma fold_logP2P_fields [simp]:
  "stopping (fold (\<lambda>i. logP2P (f i)) xs c) = stopping c"
  "runningPromise (fold (\<lambda>i. logP2P (f i)) xs c) = runningPromise c"
  "currentL2BlockNum (fold (\<lambda>i. logP2P (f i)) xs c) = currentL2BlockNum c"
  "currentState (fold (\<lambda>i. logP2P (f i)) xs c) = currentState c"
  "syncPromise (fold (\<lambda>i. logP2P (f i)) xs c) = syncPromise c"
  "latestBlockNumberAtStart (fold (\<lambda>i. logP2P (f i)) xs c) = latestBlockNumberAtStart c"
  "syncResolve (fold (\<lambda>i. logP2P (f i)) xs c) = syncResolve c"
  "downloaderFrom (fold (\<lambda>i. logP2P (f i)) xs c) = downloaderFrom c"
  "txPool (fold (\<lambda>i. logP2P (f i)) xs c) = txPool c"
  by (induction xs arbitrary: c; simp add: logP2P_def)+

lemma reconcileTxPool_fields [simp]:
  "stopping (reconcileTxPool bs c) = stopping c"
  "runningPromise (reconcileTxPool bs c) = runningPromise c"
  "currentL2BlockNum (reconcileTxPool bs c) = currentL2BlockNum c"
  "currentState (reconcileTxPool bs c) = currentState c"
  "syncPromise (reconcileTxPool bs c) = syncPromise c"
  "latestBlockNumberAtStart (reconcileTxPool bs c) = latestBlockNumberAtStart c"
  "syncResolve (reconcileTxPool bs c) = syncResolve c"
  "downloaderFrom (reconcileTxPool bs c) = downloaderFrom c"
  by (induction bs arbitrary: c; simp add: reconcileTxPool_def reconcileBlock_def Let_def)+

lemma reconcileTxPool_pool:
  "txPool (reconcileTxPool bs c) = fold (\<lambda>blk. deleteTxs (createTxIds blk)) bs (txPool c)"
  by (induction bs arbitrary: c) (simp_all add: reconcileTxPool_def reconcileBlock_def Let_def)

lemma handleL2Blocks_STOPPED [simp]:
  "currentState c = STOPPED \<Longrightarrow> currentState (handleL2Blocks bs c) = STOPPED"
  by (simp add: handleL2Blocks_def handleL2BlocksBegin_def handleL2BlocksResume_def Let_def logP2P_def)

lemma stop_STOPPED [simp]: "currentState (stop inFlight c) = STOPPED"
  by (simp add: stop_def Let_def setCurrentState_def logP2P_def)

text \<open>A call of \<open>start\<close> that nothing interrupts is its two parts, one after the other.\<close>

lemma start_split:
  "start latest c = (case startCheck c of Some r \<Rightarrow> (r, c) | None \<Rightarrow> startResume latest c)"
  by (simp add: start_def startCheck_def startResume_def)

text \<open>In state \<open>STOPPED\<close> a call of \<open>start\<close> throws at its first check.\<close>

lemma start_STOPPED:
  "currentState c = STOPPED \<Longrightarrow> start latest c = (Inl AlreadyStopped, c)"
  by (simp add: start_def)

text \<open>
  A call of \<open>start\<close> that resumes leaves the client synching or running, whatever has
  happened to the client while the call was waiting.
\<close>

lemma startResume_state:
  "currentState (snd (startResume latest c)) =
     (if currentL2BlockNum c + 1 \<le> latest then SYNCHING else RUNNING)"
  by (simp add: startResume_def Let_def setCurrentState_def logP2P_def)

text \<open>
  C7 does not hold of the client. Take a fresh client. A first call of \<open>start\<close> passes its
  checks and waits for the block source; \<open>stop\<close> is called and runs to its end, so that the
  client is \<open>STOPPED\<close> (a call of \<open>start\<close> made now would throw \<open>AlreadyStopped\<close>); then the
  first call resumes with the latest block number 0. It sets the state to \<open>RUNNING\<close>, the
  client says it is ready, and a call of \<open>start\<close> made after that returns a resolved
  promise where C7 wants it to throw.
\<close>

theorem start_overtaken_by_stop:
  "startCheck (newP2PClient []) = None
   \<and> currentState (stop [] (newP2PClient [])) = STOPPED
   \<and> fst (start 7 (stop [] (newP2PClient []))) = Inl AlreadyStopped
   \<and> currentState (snd (startResume 0 (stop [] (newP2PClient [])))) = RUNNING
   \<and> isReady (snd (startResume 0 (stop [] (newP2PClient []))))
   \<and> fst (start 7 (snd (startResume 0 (stop [] (newP2PClient []))))) = Inr Resolved"
  by (simp add: p2p_defs Let_def)



section \<open>Retrying deferred notes\<close>

lemma decodeDeferredNote_foreign:
  "deferredIvpkM d \<noteq> ivpkM np \<Longrightarrow> decodeDeferredNote env np d s = (None, s)"
  by (simp add: decodeDeferredNote_def)

lemma forEach_filter_skip:
  assumes "\<And>x s. x \<in> set xs \<Longrightarrow> \<not> P x \<Longrightarrow> f x s = (None, s)"
  shows "forEach f (filter P xs) s = forEach f xs s"
  using assms
proof (induction xs arbitrary: s)
  case Nil
  then show ?case by simp
next
  case (Cons x xs)
  have IH: "\<And>s. forEach f (filter P xs) s = forEach f xs s"
    using Cons.prems by (intro Cons.IH) simp_all
  show ?case
  proof (cases "P x")
    case True
    then show ?thesis using IH by (simp split: prod.splits option.splits)
  next
    case False
    then have "f x s = (None, s)" using Cons.prems by simp
    with False show ?thesis using IH by simp
  qed
qed

lemma decodeDeferredNote_errors:
  "fst (decodeDeferredNote env np d s) = None \<or> fst (decodeDeferredNote env np d s) = Some DeferredRetryFailed"
  by (simp add: decodeDeferredNote_def Let_def split: prod.splits option.splits)

lemma decodeDeferredNote_fails:
  assumes "deferredIvpkM d = ivpkM np"
      and "incomingNote (fst (produceNoteDaos env (Some (ivpkM np)) None (deferredPayload d)
             (deferredTxHash d) (deferredNewNoteHashes d) (deferredDataStartIndexForTx d)
             (excludedIndices s))) = None"
  shows "fst (decodeDeferredNote env np d s) = Some DeferredRetryFailed"
  using assms by (simp add: decodeDeferredNote_def Let_def split_beta)

text \<open>
  C9. A deferred record whose key is not the processor's incoming viewing key is skipped:
  the call behaves as if the record were not in the list, and a list of such records only
  gives no note, no error and no change. A record with the processor's key for which
  \<open>produceNoteDaos\<close>, when its turn comes, returns no incoming note makes the call fail.
\<close>

theorem decodeDeferredNotes_skips_and_fails:
  "decodeDeferredNotes env deferredNoteDaos np =
     decodeDeferredNotes env (filter (\<lambda>d. deferredIvpkM d = ivpkM np) deferredNoteDaos) np
   \<and> ((\<forall>d \<in> set deferredNoteDaos. deferredIvpkM d \<noteq> ivpkM np) \<longrightarrow>
        decodeDeferredNotes env deferredNoteDaos np = (Inr [], np))
   \<and> (deferredIvpkM d = ivpkM np
      \<and> incomingNote (fst (produceNoteDaos env (Some (ivpkM np)) None (deferredPayload d)
           (deferredTxHash d) (deferredNewNoteHashes d) (deferredDataStartIndexForTx d)
           (excludedIndices (snd (forEach (decodeDeferredNote env np) earlier
              (initialLocals (stats np))))))) = None \<longrightarrow>
        fst (decodeDeferredNotes env (earlier @ d # later) np) = Inl DeferredRetryFailed)"
proof (intro conjI impI)
  have skip: "\<And>ds s. forEach (decodeDeferredNote env np) (filter (\<lambda>d. deferredIvpkM d = ivpkM np) ds) s
        = forEach (decodeDeferredNote env np) ds s"
    by (rule forEach_filter_skip) (simp add: decodeDeferredNote_foreign)
  show "decodeDeferredNotes env deferredNoteDaos np =
     decodeDeferredNotes env (filter (\<lambda>d. deferredIvpkM d = ivpkM np) deferredNoteDaos) np"
    by (simp add: decodeDeferredNotes_def skip)
  {
    assume "\<forall>d \<in> set deferredNoteDaos. deferredIvpkM d \<noteq> ivpkM np"
    then have "filter (\<lambda>d. deferredIvpkM d = ivpkM np) deferredNoteDaos = []" by (simp add: filter_empty_conv)
    then have "forEach (decodeDeferredNote env np) deferredNoteDaos (initialLocals (stats np))
               = (None, initialLocals (stats np))"
      using skip [of deferredNoteDaos "initialLocals (stats np)"] by simp
    then show "decodeDeferredNotes env deferredNoteDaos np = (Inr [], np)"
      by (simp add: decodeDeferredNotes_def initialLocals_def)
  }
  {
    let ?f = "decodeDeferredNote env np"
    let ?s0 = "initialLocals (stats np)"
    let ?s1 = "snd (forEach ?f earlier ?s0)"
    assume a: "deferredIvpkM d = ivpkM np
      \<and> incomingNote (fst (produceNoteDaos env (Some (ivpkM np)) None (deferredPayload d)
           (deferredTxHash d) (deferredNewNoteHashes d) (deferredDataStartIndexForTx d)
           (excludedIndices ?s1))) = None"
    then have step: "fst (?f d ?s1) = Some DeferredRetryFailed"
      by (intro decodeDeferredNote_fails) simp_all
    have errs: "fst (forEach ?f earlier ?s0) = None \<or> fst (forEach ?f earlier ?s0) = Some DeferredRetryFailed"
      by (rule forEach_errors) (rule decodeDeferredNote_errors)
    have "fst (forEach ?f (earlier @ d # later) ?s0) = Some DeferredRetryFailed"
      using errs step unfolding forEach_append forEach_Cons by auto
    then show "fst (decodeDeferredNotes env (earlier @ d # later) np) = Inl DeferredRetryFailed"
      by (auto simp: decodeDeferredNotes_def split: prod.splits option.splits)
  }
qed

theorem decodeDeferredNotes_skips_and_fails_witness:
  "deferredIvpkM sampleDeferredForeign \<noteq> ivpkM sampleProcessor
   \<and> decodeDeferredNotes sampleEnv [sampleDeferredForeign] sampleProcessor = (Inr [], sampleProcessor)
   \<and> deferredIvpkM sampleDeferredFailing = ivpkM sampleProcessor
   \<and> fst (decodeDeferredNotes sampleEnv [sampleDeferredForeign, sampleDeferredFailing] sampleProcessor)
       = Inl DeferredRetryFailed"
proof -
  have h1: "\<forall>d \<in> set [sampleDeferredForeign]. deferredIvpkM d \<noteq> ivpkM sampleProcessor"
    by (simp add: sample_defs)
  have h2: "deferredIvpkM sampleDeferredFailing = ivpkM sampleProcessor
      \<and> incomingNote (fst (produceNoteDaos sampleEnv (Some (ivpkM sampleProcessor)) None
           (deferredPayload sampleDeferredFailing) (deferredTxHash sampleDeferredFailing)
           (deferredNewNoteHashes sampleDeferredFailing) (deferredDataStartIndexForTx sampleDeferredFailing)
           (excludedIndices (snd (forEach (decodeDeferredNote sampleEnv sampleProcessor) [sampleDeferredForeign]
              (initialLocals (stats sampleProcessor))))))) = None"
    by (simp add: sample_defs decodeDeferredNote_def initialLocals_def)
  show ?thesis
    using h1 h2
      decodeDeferredNotes_skips_and_fails [of sampleEnv "[sampleDeferredForeign]" sampleProcessor]
      decodeDeferredNotes_skips_and_fails [of sampleEnv _ sampleProcessor sampleDeferredFailing "[sampleDeferredForeign]" "[]"]
    by simp
qed


section \<open>Conflicting payloads\<close>

lemma processLog_errors:
  "fst (processLog env np blk i d s) = None \<or> fst (processLog env np blk i d s) = Some DecryptionPayloadConflict"
  by (simp add: processLog_def Let_def split: option.splits)

lemma processLog_conflict:
  "payloadsConflict env d \<Longrightarrow> fst (processLog env np blk i d s) = Some DecryptionPayloadConflict"
  by (simp add: processLog_def payloadsConflict_def Let_def split: option.splits)

lemma functionLogs_errors:
  "fst (forEach (processLog env np blk i) functionLogs s) = None
   \<or> fst (forEach (processLog env np blk i) functionLogs s) = Some DecryptionPayloadConflict"
  by (rule forEach_errors) (rule processLog_errors)

lemma functionLogs_conflict:
  assumes "d \<in> set functionLogs" and "payloadsConflict env d"
  shows "fst (forEach (processLog env np blk i) functionLogs s) = Some DecryptionPayloadConflict"
proof -
  have "fst (forEach (processLog env np blk i) functionLogs s) \<noteq> None"
    using assms by (intro forEach_fails [of d]) (simp_all add: processLog_conflict)
  then show ?thesis using functionLogs_errors [of env np blk i functionLogs s] by auto
qed

lemma txLogs_errors:
  "fst (forEach (\<lambda>functionLogs. forEach (processLog env np blk i) functionLogs) txFunctionLogs s) = None
   \<or> fst (forEach (\<lambda>functionLogs. forEach (processLog env np blk i) functionLogs) txFunctionLogs s)
       = Some DecryptionPayloadConflict"
  by (rule forEach_errors) (rule functionLogs_errors)

lemma txLogs_conflict:
  assumes "d \<in> set (concat txFunctionLogs)" and "payloadsConflict env d"
  shows "fst (forEach (\<lambda>functionLogs. forEach (processLog env np blk i) functionLogs) txFunctionLogs s)
           = Some DecryptionPayloadConflict"
proof -
  obtain fl where fl: "fl \<in> set txFunctionLogs" "d \<in> set fl" using assms(1) by auto
  have "fst (forEach (\<lambda>functionLogs. forEach (processLog env np blk i) functionLogs) txFunctionLogs s) \<noteq> None"
    using fl assms(2) by (intro forEach_fails [of fl]) (simp_all add: functionLogs_conflict)
  then show ?thesis using txLogs_errors [of env np blk i txFunctionLogs s] by auto
qed

lemma processTx_errors:
  "i < length (txEffects blk) \<Longrightarrow>
     fst (processTx env np blk txLogs i s) = None
     \<or> fst (processTx env np blk txLogs i s) = Some DecryptionPayloadConflict"
  by (simp add: processTx_def Let_def txLogs_errors)

lemma processTx_conflict:
  assumes "d \<in> set (concat (txLogs ! i))" and "payloadsConflict env d"
  shows "fst (processTx env np blk txLogs i s) \<noteq> None"
  using assms by (simp add: processTx_def Let_def txLogs_conflict)

lemma fst_processBlock:
  "fst (processBlock env np blk txLogs s) =
     fst (forEach (processTx env np blk txLogs) [0 ..< length txLogs]
            (s\<lparr>curStats := (curStats s)\<lparr>blocks := blocks (curStats s) + 1\<rparr>,
               incomingNotes := [], outgoingNotes := []\<rparr>))"
  by (simp add: processBlock_def Let_def split: prod.splits option.splits)

lemma fst_process:
  "length l2Blocks = length encryptedL2BlockLogs \<Longrightarrow> encryptedL2BlockLogs \<noteq> [] \<Longrightarrow>
     fst (process env l2Blocks encryptedL2BlockLogs np) = fst (decodeBlocks env np l2Blocks encryptedL2BlockLogs)"
  by (auto simp: process_def Let_def split: prod.splits option.splits)

lemma processBlock_errors:
  assumes "length txLogs \<le> length (txEffects blk)"
  shows "fst (processBlock env np blk txLogs s) = None
         \<or> fst (processBlock env np blk txLogs s) = Some DecryptionPayloadConflict"
proof -
  have "\<And>s. fst (forEach (processTx env np blk txLogs) [0 ..< length txLogs] s) = None
     \<or> fst (forEach (processTx env np blk txLogs) [0 ..< length txLogs] s) = Some DecryptionPayloadConflict"
    using assms by (intro forEach_errors processTx_errors) simp
  then show ?thesis unfolding fst_processBlock by auto
qed

lemma processBlock_conflict:
  assumes "d \<in> set (concat (concat txLogs))" and "payloadsConflict env d"
  shows "fst (processBlock env np blk txLogs s) \<noteq> None"
proof -
  obtain tl where tl: "tl \<in> set txLogs" "d \<in> set (concat tl)" using assms(1) by auto
  then obtain i where i: "i < length txLogs" "txLogs ! i = tl" by (auto simp: in_set_conv_nth)
  have "\<And>s. fst (forEach (processTx env np blk txLogs) [0 ..< length txLogs] s) \<noteq> None"
    using i tl assms(2) by (intro forEach_fails [of i]) (simp_all add: processTx_conflict)
  then show ?thesis unfolding fst_processBlock by auto
qed

lemma forEach_reaches:
  assumes "\<And>x s. x \<in> set xs \<Longrightarrow> fst (f x s) = None \<or> fst (f x s) = Some e"
      and "\<And>s. fst (f y s) = Some e"
  shows "fst (forEach f (xs @ y # zs) s) = Some e"
proof -
  have "fst (forEach f xs s) = None \<or> fst (forEach f xs s) = Some e"
    using assms(1) by (rule forEach_errors)
  then show ?thesis
    unfolding forEach_append forEach_Cons using assms(2) by auto
qed

lemma upt_split: "i < j \<Longrightarrow> [0 ..< j] = [0 ..< i] @ i # [Suc i ..< j]"
  by (metis less_imp_le_nat upt_add_eq_append upt_conv_Cons le_add_diff_inverse add_0 zero_le)

lemma processTx_reaches:
  assumes "t < length (txEffects blk)"
      and "d \<in> set (concat (txLogs ! t))" and "payloadsConflict env d"
  shows "fst (processTx env np blk txLogs t s) = Some DecryptionPayloadConflict"
  using processTx_errors [OF assms(1), of env np txLogs s] processTx_conflict [OF assms(2,3), of np blk s]
  by auto

lemma processBlock_reaches:
  assumes "t < length txLogs" and "t < length (txEffects blk)"
      and "d \<in> set (concat (txLogs ! t))" and "payloadsConflict env d"
  shows "fst (processBlock env np blk txLogs s) = Some DecryptionPayloadConflict"
proof -
  have "fst (forEach (processTx env np blk txLogs) ([0 ..< t] @ t # [Suc t ..< length txLogs]) s0)
          = Some DecryptionPayloadConflict" for s0
  proof (rule forEach_reaches)
    fix x s1
    assume "x \<in> set [0 ..< t]"
    then have "x < length (txEffects blk)" using assms(2) by simp
    then show "fst (processTx env np blk txLogs x s1) = None
               \<or> fst (processTx env np blk txLogs x s1) = Some DecryptionPayloadConflict"
      by (rule processTx_errors)
  next
    fix s1
    show "fst (processTx env np blk txLogs t s1) = Some DecryptionPayloadConflict"
      using assms(2,3,4) by (rule processTx_reaches)
  qed
  then show ?thesis
    unfolding fst_processBlock upt_split [OF assms(1), symmetric] by simp
qed

text \<open>
  The loop stops with the payload conflict when it gets to a conflicting log: the blocks
  before the log's block have no more transaction logs than transaction effects, and the
  log's transaction has an effect.
\<close>

lemma decodeBlocks_reaches:
  assumes "b < length encryptedL2BlockLogs"
      and "\<forall>b' < b. length (encryptedL2BlockLogs ! b') \<le> length (txEffects (l2Blocks ! b'))"
      and "t < length (encryptedL2BlockLogs ! b)" and "t < length (txEffects (l2Blocks ! b))"
      and "d \<in> set (concat (encryptedL2BlockLogs ! b ! t))" and "payloadsConflict env d"
  shows "fst (decodeBlocks env np l2Blocks encryptedL2BlockLogs) = Some DecryptionPayloadConflict"
proof -
  let ?f = "\<lambda>blockIndex. processBlock env np (l2Blocks ! blockIndex) (encryptedL2BlockLogs ! blockIndex)"
  have "fst (forEach ?f ([0 ..< b] @ b # [Suc b ..< length encryptedL2BlockLogs]) s0)
          = Some DecryptionPayloadConflict" for s0
  proof (rule forEach_reaches)
    fix x s1
    assume "x \<in> set [0 ..< b]"
    then have "length (encryptedL2BlockLogs ! x) \<le> length (txEffects (l2Blocks ! x))"
      using assms(2) by simp
    then show "fst (?f x s1) = None \<or> fst (?f x s1) = Some DecryptionPayloadConflict"
      by (rule processBlock_errors)
  next
    fix s1
    show "fst (?f b s1) = Some DecryptionPayloadConflict"
      using assms(3,4,5,6) by (rule processBlock_reaches)
  qed
  then show ?thesis
    unfolding decodeBlocks_def upt_split [OF assms(1), symmetric] by simp
qed

lemma decodeBlocks_conflict:
  assumes "length l2Blocks = length encryptedL2BlockLogs"
      and "d \<in> set (allLogs encryptedL2BlockLogs)" and "payloadsConflict env d"
  shows "fst (decodeBlocks env np l2Blocks encryptedL2BlockLogs) \<noteq> None"
proof -
  obtain tls where tls: "tls \<in> set encryptedL2BlockLogs" "d \<in> set (concat (concat tls))"
    using assms(2) by (auto simp: allLogs_def)
  then obtain i where i: "i < length encryptedL2BlockLogs" "encryptedL2BlockLogs ! i = tls"
    by (auto simp: in_set_conv_nth)
  then have "(l2Blocks ! i, tls) \<in> set (zip l2Blocks encryptedL2BlockLogs)"
    using assms(1) by (auto simp: set_zip)
  then show ?thesis
    unfolding decodeBlocks_zip [OF assms(1)] using tls assms(3)
    by (intro forEach_fails [of "(l2Blocks ! i, tls)"]) (simp_all add: processBlock_conflict)
qed

lemma process_error_commits_nothing:
  "fst (process env l2Blocks encryptedL2BlockLogs np) \<noteq> None \<Longrightarrow>
     db (snd (process env l2Blocks encryptedL2BlockLogs np)) = db np
     \<and> dbCalls (snd (process env l2Blocks encryptedL2BlockLogs np)) = dbCalls np"
  by (auto simp: process_def Let_def split: if_splits prod.splits option.splits)

text \<open>
  C3, as the code has it. When some log of the batch decrypts under both keys to two
  different payloads, \<open>process\<close> fails and commits nothing: the database is as before, no
  call was made on it, and the synched block number is unchanged. The error is the payload
  conflict when the loop gets to such a log: there are as many log batches as blocks, no
  block before the log's block has more transaction logs than transaction effects, and
  the log's transaction has an effect. Whatever comes after the log does not matter.
\<close>

theorem process_payload_conflict:
  "((\<exists>d \<in> set (allLogs encryptedL2BlockLogs). payloadsConflict env d) \<longrightarrow>
      fst (process env l2Blocks encryptedL2BlockLogs np) \<noteq> None
      \<and> db (snd (process env l2Blocks encryptedL2BlockLogs np)) = db np
      \<and> dbCalls (snd (process env l2Blocks encryptedL2BlockLogs np)) = dbCalls np
      \<and> getSyncedToBlock (snd (process env l2Blocks encryptedL2BlockLogs np)) = getSyncedToBlock np)
   \<and> (length l2Blocks = length encryptedL2BlockLogs
      \<and> b < length encryptedL2BlockLogs
      \<and> (\<forall>b' < b. length (encryptedL2BlockLogs ! b') \<le> length (txEffects (l2Blocks ! b')))
      \<and> t < length (encryptedL2BlockLogs ! b) \<and> t < length (txEffects (l2Blocks ! b))
      \<and> logData \<in> set (concat (encryptedL2BlockLogs ! b ! t)) \<and> payloadsConflict env logData \<longrightarrow>
      fst (process env l2Blocks encryptedL2BlockLogs np) = Some DecryptionPayloadConflict)"
proof (intro conjI impI)
  assume "\<exists>d \<in> set (allLogs encryptedL2BlockLogs). payloadsConflict env d"
  then obtain d where d: "d \<in> set (allLogs encryptedL2BlockLogs)" "payloadsConflict env d" by auto
  then have ne: "encryptedL2BlockLogs \<noteq> []" by (auto simp: allLogs_def)
  show fails: "fst (process env l2Blocks encryptedL2BlockLogs np) \<noteq> None"
  proof (cases "length l2Blocks = length encryptedL2BlockLogs")
    case True
    from decodeBlocks_conflict [OF True d, of np] show ?thesis
      using True ne by (simp add: fst_process)
  next
    case False
    then show ?thesis by (simp add: process_def)
  qed
  from process_error_commits_nothing [OF fails]
  show same: "db (snd (process env l2Blocks encryptedL2BlockLogs np)) = db np"
    and "dbCalls (snd (process env l2Blocks encryptedL2BlockLogs np)) = dbCalls np"
    by simp_all
  have key: "ivpkM (snd (process env l2Blocks encryptedL2BlockLogs np)) = ivpkM np
             \<and> startingBlock (snd (process env l2Blocks encryptedL2BlockLogs np)) = startingBlock np"
    using fails by (auto simp: process_def Let_def split: if_splits prod.splits option.splits)
  show "getSyncedToBlock (snd (process env l2Blocks encryptedL2BlockLogs np)) = getSyncedToBlock np"
    using same key by (simp add: getSyncedToBlock_def split: option.splits)
next
  assume a: "length l2Blocks = length encryptedL2BlockLogs
      \<and> b < length encryptedL2BlockLogs
      \<and> (\<forall>b' < b. length (encryptedL2BlockLogs ! b') \<le> length (txEffects (l2Blocks ! b')))
      \<and> t < length (encryptedL2BlockLogs ! b) \<and> t < length (txEffects (l2Blocks ! b))
      \<and> logData \<in> set (concat (encryptedL2BlockLogs ! b ! t)) \<and> payloadsConflict env logData"
  then have ne: "encryptedL2BlockLogs \<noteq> []" by auto
  have "fst (decodeBlocks env np l2Blocks encryptedL2BlockLogs) = Some DecryptionPayloadConflict"
    using a by (intro decodeBlocks_reaches [of b _ _ t logData]) simp_all
  then show "fst (process env l2Blocks encryptedL2BlockLogs np) = Some DecryptionPayloadConflict"
    using a ne by (simp add: fst_process)
qed

theorem process_payload_conflict_witness:
  "[3] \<in> set (allLogs [sampleLogs5, sampleLogs6]) \<and> payloadsConflict sampleEnv [3]
   \<and> fst (process sampleEnv [sampleBlock5, sampleBlock6] [sampleLogs5, sampleLogs6] sampleProcessor)
       = Some DecryptionPayloadConflict
   \<and> db (snd (process sampleEnv [sampleBlock5, sampleBlock6] [sampleLogs5, sampleLogs6] sampleProcessor))
       = emptyDatabase
   \<and> getSyncedToBlock (snd (process sampleEnv [sampleBlock5, sampleBlock6] [sampleLogs5, sampleLogs6] sampleProcessor))
       = 0
   \<and> fst (process sampleEnv [sampleBlock6, sampleBlock3] [sampleLogs6, sampleLogs5] sampleProcessor)
       = Some DecryptionPayloadConflict"
proof -
  have c: "[3] \<in> set (allLogs [sampleLogs5, sampleLogs6])" "payloadsConflict sampleEnv [3]"
    by (simp_all add: allLogs_def payloadsConflict_def sample_defs)
  then have h1: "\<exists>d \<in> set (allLogs [sampleLogs5, sampleLogs6]). payloadsConflict sampleEnv d"
    by blast
  have h2: "length [sampleBlock5, sampleBlock6] = length [sampleLogs5, sampleLogs6]
      \<and> Suc 0 < length [sampleLogs5, sampleLogs6]
      \<and> (\<forall>b' < Suc 0. length ([sampleLogs5, sampleLogs6] ! b') \<le> length (txEffects ([sampleBlock5, sampleBlock6] ! b')))
      \<and> 0 < length ([sampleLogs5, sampleLogs6] ! Suc 0) \<and> 0 < length (txEffects ([sampleBlock5, sampleBlock6] ! Suc 0))
      \<and> [3] \<in> set (concat ([sampleLogs5, sampleLogs6] ! Suc 0 ! 0)) \<and> payloadsConflict sampleEnv [3]"
    using c(2) by (simp add: sample_defs)
  have h3: "length [sampleBlock6, sampleBlock3] = length [sampleLogs6, sampleLogs5]
      \<and> 0 < length [sampleLogs6, sampleLogs5]
      \<and> (\<forall>b' < 0. length ([sampleLogs6, sampleLogs5] ! b') \<le> length (txEffects ([sampleBlock6, sampleBlock3] ! b')))
      \<and> 0 < length ([sampleLogs6, sampleLogs5] ! 0) \<and> 0 < length (txEffects ([sampleBlock6, sampleBlock3] ! 0))
      \<and> [3] \<in> set (concat ([sampleLogs6, sampleLogs5] ! 0 ! 0)) \<and> payloadsConflict sampleEnv [3]"
    using c(2) by (simp add: sample_defs)
  have d0: "db sampleProcessor = emptyDatabase" by (simp add: sampleProcessor_def)
  note t1 = process_payload_conflict [of "[sampleLogs5, sampleLogs6]" sampleEnv
      "[sampleBlock5, sampleBlock6]" sampleProcessor "Suc 0" 0 "[3]"]
  note t2 = process_payload_conflict [of "[sampleLogs6, sampleLogs5]" sampleEnv
      "[sampleBlock6, sampleBlock3]" sampleProcessor 0 0 "[3]"]
  have r1: "fst (process sampleEnv [sampleBlock5, sampleBlock6] [sampleLogs5, sampleLogs6] sampleProcessor)
          = Some DecryptionPayloadConflict"
    using t1 h2 by blast
  have r2: "db (snd (process sampleEnv [sampleBlock5, sampleBlock6] [sampleLogs5, sampleLogs6] sampleProcessor))
          = db sampleProcessor"
    using t1 h1 by blast
  have r3: "getSyncedToBlock (snd (process sampleEnv [sampleBlock5, sampleBlock6] [sampleLogs5, sampleLogs6] sampleProcessor))
          = getSyncedToBlock sampleProcessor"
    using t1 h1 by blast
  have r4: "fst (process sampleEnv [sampleBlock6, sampleBlock3] [sampleLogs6, sampleLogs5] sampleProcessor)
          = Some DecryptionPayloadConflict"
    using t2 h3 by blast
  show ?thesis using c r1 r2 r3 r4 d0 sample_getSyncedToBlock(1) by simp
qed

text \<open>
  C3 as it was claimed asks for the payload conflict in every call with a conflicting log.
  With one log batch for two blocks the call fails on the lengths, and a block without
  transaction effects makes the loop fail on the missing effect before it decrypts
  anything.
\<close>

theorem process_payload_conflict_counterexample:
  "[3] \<in> set (allLogs [sampleLogs6]) \<and> payloadsConflict sampleEnv [3]
   \<and> fst (process sampleEnv [sampleBlock5, sampleBlock6] [sampleLogs6] sampleProcessor)
       = Some BatchLengthMismatch
   \<and> fst (process sampleEnv [sampleBlock3] [sampleLogs6] sampleProcessor) = Some TypeError"
proof -
  have c: "[3] \<in> set (allLogs [sampleLogs6])" "payloadsConflict sampleEnv [3]"
    by (simp_all add: allLogs_def payloadsConflict_def sample_defs)
  have m: "fst (process sampleEnv [sampleBlock5, sampleBlock6] [sampleLogs6] sampleProcessor)
       = Some BatchLengthMismatch"
    by (simp add: process_def)
  have t: "fst (process sampleEnv [sampleBlock3] [sampleLogs6] sampleProcessor) = Some TypeError"
    by (simp add: process_defs sample_defs Let_def)
  from c m t show ?thesis by blast
qed

section \<open>Persisting a batch\<close>

lemma collectNoteDaos_blocksAndNotes:
  "blocksAndNotes (collectNoteDaos env blk i iv ov p s) = blocksAndNotes s"
  by (simp add: collectNoteDaos_def Let_def split_beta split: option.splits)

lemma processLog_blocksAndNotes:
  "blocksAndNotes (snd (processLog env np blk i d s)) = blocksAndNotes s"
  by (simp add: processLog_def Let_def collectNoteDaos_blocksAndNotes split: option.splits)

lemma processTx_blocksAndNotes:
  "blocksAndNotes (snd (processTx env np blk txLogs i s)) = blocksAndNotes s"
proof -
  have "\<And>s0. blocksAndNotes s0 = blocksAndNotes s \<Longrightarrow>
          blocksAndNotes (snd (forEach (\<lambda>functionLogs. forEach (processLog env np blk i) functionLogs)
            (txLogs ! i) s0)) = blocksAndNotes s"
    by (rule forEach_inv, rule forEach_inv) (simp_all add: processLog_blocksAndNotes)
  then show ?thesis by (simp add: processTx_def Let_def)
qed

lemma processBlock_blocksAndNotes:
  assumes "fst (processBlock env np blk txLogs s) = None"
  shows "map block (blocksAndNotes (snd (processBlock env np blk txLogs s)))
           = map block (blocksAndNotes s) @ [blk]"
proof -
  let ?s1 = "s\<lparr>curStats := (curStats s)\<lparr>blocks := blocks (curStats s) + 1\<rparr>,
               incomingNotes := [], outgoingNotes := []\<rparr>"
  have "blocksAndNotes (snd (forEach (processTx env np blk txLogs) [0 ..< length txLogs] ?s1))
          = blocksAndNotes s"
    by (rule forEach_inv) (simp_all add: processTx_blocksAndNotes)
  then show ?thesis using assms
    by (auto simp: processBlock_def Let_def split: prod.splits option.splits)
qed

lemma blockLoop_blocksAndNotes:
  "fst (forEach (\<lambda>p. processBlock env np (fst p) (snd p)) zs s) = None \<Longrightarrow>
     map block (blocksAndNotes (snd (forEach (\<lambda>p. processBlock env np (fst p) (snd p)) zs s)))
       = map block (blocksAndNotes s) @ map fst zs"
proof (induction zs arbitrary: s)
  case Nil
  then show ?case by simp
next
  case (Cons z zs)
  let ?f = "\<lambda>p. processBlock env np (fst p) (snd p)"
  from Cons.prems have ok: "fst (?f z s) = None"
    unfolding forEach_Cons by (simp split: option.splits)
  with Cons.prems have rest: "fst (forEach ?f zs (snd (?f z s))) = None"
    unfolding forEach_Cons by simp
  from Cons.IH [OF rest] processBlock_blocksAndNotes [of env np "fst z" "snd z" s] ok
  show ?case unfolding forEach_Cons by simp
qed

lemma decodeBlocks_blocks:
  assumes "length l2Blocks = length encryptedL2BlockLogs"
      and "fst (decodeBlocks env np l2Blocks encryptedL2BlockLogs) = None"
  shows "map block (blocksAndNotes (snd (decodeBlocks env np l2Blocks encryptedL2BlockLogs))) = l2Blocks"
  using blockLoop_blocksAndNotes [of env np "zip l2Blocks encryptedL2BlockLogs" "initialLocals (stats np)"] assms
  by (simp add: decodeBlocks_zip initialLocals_def)

lemma newNullifiers_emitted: "newNullifiers bns = emittedNullifiers (map block bns)"
  by (simp add: newNullifiers_def emittedNullifiers_def comp_def)

lemma persistBatch_dbCalls:
  "dbCalls (persistBatch l2Blocks s np) =
     dbCalls np
     @ (if concat (map pdIncomingNotes (blocksAndNotes s)) = [] \<and> concat (map pdOutgoingNotes (blocksAndNotes s)) = []
        then []
        else [AddNotes (concat (map pdIncomingNotes (blocksAndNotes s)))
                       (concat (map pdOutgoingNotes (blocksAndNotes s)))])
     @ [RemoveNullifiedNotes (newNullifiers (blocksAndNotes s)) (ivpkM np)]
     @ (if deferredNoteDaosIncoming s = [] then [] else [AddDeferredNotes (deferredNoteDaosIncoming s)])
     @ [SetSynchedBlockNumberForPublicKey (ivpkM np) (number (l2Blocks ! (length l2Blocks - 1)))]"
  by (simp add: persistBatch_def processBlocksAndNotes_def processDeferredNotes_def Let_def split_beta)

lemma processBlocksAndNotes_db:
  "db (processBlocksAndNotes bns np) =
     snd (removeNullifiedNotes (newNullifiers bns) (ivpkM np)
            (addNotes (concat (map pdIncomingNotes bns)) (concat (map pdOutgoingNotes bns)) (db np)))"
proof (cases "concat (map pdIncomingNotes bns) = [] \<and> concat (map pdOutgoingNotes bns) = []")
  case True
  then show ?thesis
    by (simp add: processBlocksAndNotes_def Let_def split_beta addNotes_def removeNullifiedNotes_def
        del: concat_eq_Nil_conv)
next
  case False
  then show ?thesis
    by (simp add: processBlocksAndNotes_def Let_def split_beta addNotes_def removeNullifiedNotes_def
        del: concat_eq_Nil_conv)
qed

lemma processBlocksAndNotes_fields:
  "ivpkM (processBlocksAndNotes bns np) = ivpkM np"
  "ovpkM (processBlocksAndNotes bns np) = ovpkM np"
  "startingBlock (processBlocksAndNotes bns np) = startingBlock np"
  "account (processBlocksAndNotes bns np) = account np"
  "stats (processBlocksAndNotes bns np) = stats np"
  by (simp_all add: processBlocksAndNotes_def Let_def split_beta)

lemma processDeferredNotes_db:
  "db (processDeferredNotes ds np) = addDeferredNotes ds (db np)"
  by (cases "ds = []") (simp_all add: processDeferredNotes_def addDeferredNotes_def)

lemma processDeferredNotes_fields:
  "ivpkM (processDeferredNotes ds np) = ivpkM np"
  "ovpkM (processDeferredNotes ds np) = ovpkM np"
  "startingBlock (processDeferredNotes ds np) = startingBlock np"
  "account (processDeferredNotes ds np) = account np"
  "stats (processDeferredNotes ds np) = stats np"
  by (simp_all add: processDeferredNotes_def)

lemma persistBatch_db:
  "db (persistBatch l2Blocks s np) =
     setSynchedBlockNumberForPublicKey (ivpkM np) (number (l2Blocks ! (length l2Blocks - 1)))
       (addDeferredNotes (deferredNoteDaosIncoming s)
          (snd (removeNullifiedNotes (newNullifiers (blocksAndNotes s)) (ivpkM np)
             (addNotes (concat (map pdIncomingNotes (blocksAndNotes s)))
                       (concat (map pdOutgoingNotes (blocksAndNotes s))) (db np)))))"
  by (simp add: persistBatch_def Let_def processDeferredNotes_db processBlocksAndNotes_db
      processDeferredNotes_fields processBlocksAndNotes_fields)

lemma persistBatch_fields:
  "ivpkM (persistBatch l2Blocks s np) = ivpkM np"
  "ovpkM (persistBatch l2Blocks s np) = ovpkM np"
  "startingBlock (persistBatch l2Blocks s np) = startingBlock np"
  "account (persistBatch l2Blocks s np) = account np"
  "stats (persistBatch l2Blocks s np) = stats np"
  by (simp_all add: persistBatch_def Let_def processDeferredNotes_fields processBlocksAndNotes_fields)

lemma process_success:
  assumes "fst (process env l2Blocks encryptedL2BlockLogs np) = None" and "l2Blocks \<noteq> []"
  shows "length l2Blocks = length encryptedL2BlockLogs
         \<and> fst (decodeBlocks env np l2Blocks encryptedL2BlockLogs) = None
         \<and> snd (process env l2Blocks encryptedL2BlockLogs np) =
             persistBatch l2Blocks (snd (decodeBlocks env np l2Blocks encryptedL2BlockLogs))
               (np\<lparr>stats := curStats (snd (decodeBlocks env np l2Blocks encryptedL2BlockLogs))\<rparr>)"
  using assms by (auto simp: process_def split: if_splits prod.splits option.splits)

lemma process_fields:
  "ivpkM (snd (process env l2Blocks encryptedL2BlockLogs np)) = ivpkM np"
  "ovpkM (snd (process env l2Blocks encryptedL2BlockLogs np)) = ovpkM np"
  "startingBlock (snd (process env l2Blocks encryptedL2BlockLogs np)) = startingBlock np"
  "account (snd (process env l2Blocks encryptedL2BlockLogs np)) = account np"
  by (auto simp: process_def persistBatch_fields split: prod.splits option.splits)

lemma getSyncedToBlock_cong:
  "db np' = db np \<Longrightarrow> ivpkM np' = ivpkM np \<Longrightarrow> startingBlock np' = startingBlock np \<Longrightarrow>
     getSyncedToBlock np' = getSyncedToBlock np"
  by (simp add: getSyncedToBlock_def split: option.splits)

text \<open>
  C1, as the code has it. When \<open>process\<close> accepts a batch that is not empty, the calls
  it makes on the database are, in this order: \<open>addNotes\<close> with all incoming and outgoing
  records of the batch (left out when there is none of either kind); \<open>removeNullifiedNotes\<close>
  with the nullifiers of all transactions of the batch, for the processor's key;
  \<open>addDeferredNotes\<close> with all deferred records (left out when there is none); and last
  \<open>setSynchedBlockNumberForPublicKey\<close> with the number of the last block. The removal
  comes before the deferred records, and it applies to the records just added as well.
\<close>

theorem process_persists_in_order:
  "fst (process env l2Blocks encryptedL2BlockLogs np) = None \<and> l2Blocks \<noteq> [] \<Longrightarrow>
     dbCalls (snd (process env l2Blocks encryptedL2BlockLogs np)) =
       dbCalls np
       @ (if decodedIncoming env np l2Blocks encryptedL2BlockLogs = []
             \<and> decodedOutgoing env np l2Blocks encryptedL2BlockLogs = []
          then []
          else [AddNotes (decodedIncoming env np l2Blocks encryptedL2BlockLogs)
                         (decodedOutgoing env np l2Blocks encryptedL2BlockLogs)])
       @ [RemoveNullifiedNotes (emittedNullifiers l2Blocks) (ivpkM np)]
       @ (if decodedDeferred env np l2Blocks encryptedL2BlockLogs = [] then []
          else [AddDeferredNotes (decodedDeferred env np l2Blocks encryptedL2BlockLogs)])
       @ [SetSynchedBlockNumberForPublicKey (ivpkM np) (number (last l2Blocks))]
     \<and> db (snd (process env l2Blocks encryptedL2BlockLogs np)) =
         setSynchedBlockNumberForPublicKey (ivpkM np) (number (last l2Blocks))
           (addDeferredNotes (decodedDeferred env np l2Blocks encryptedL2BlockLogs)
              (snd (removeNullifiedNotes (emittedNullifiers l2Blocks) (ivpkM np)
                 (addNotes (decodedIncoming env np l2Blocks encryptedL2BlockLogs)
                           (decodedOutgoing env np l2Blocks encryptedL2BlockLogs) (db np)))))"
proof -
  assume a: "fst (process env l2Blocks encryptedL2BlockLogs np) = None \<and> l2Blocks \<noteq> []"
  let ?s = "snd (decodeBlocks env np l2Blocks encryptedL2BlockLogs)"
  from a process_success [of env l2Blocks encryptedL2BlockLogs np]
  have len: "length l2Blocks = length encryptedL2BlockLogs"
    and ok: "fst (decodeBlocks env np l2Blocks encryptedL2BlockLogs) = None"
    and res: "snd (process env l2Blocks encryptedL2BlockLogs np) =
                persistBatch l2Blocks ?s (np\<lparr>stats := curStats ?s\<rparr>)"
    by simp_all
  have nul: "newNullifiers (blocksAndNotes ?s) = emittedNullifiers l2Blocks"
    using decodeBlocks_blocks [OF len ok] by (simp add: newNullifiers_emitted)
  have lst: "l2Blocks ! (length l2Blocks - 1) = last l2Blocks"
    using a by (simp add: last_conv_nth)
  show ?thesis
    unfolding res persistBatch_dbCalls persistBatch_db nul lst
    by (simp add: decodedIncoming_def decodedOutgoing_def decodedDeferred_def)
qed

theorem process_persists_in_order_witness:
  "fst (process sampleEnv [sampleBlock5] [sampleLogs5] sampleProcessor) = None \<and> [sampleBlock5] \<noteq> []
   \<and> dbCalls (snd (process sampleEnv [sampleBlock5] [sampleLogs5] sampleProcessor)) =
       [AddNotes [sampleNoteA] [], RemoveNullifiedNotes (emittedNullifiers [sampleBlock5]) 11,
        AddDeferredNotes [sampleDeferredB], SetSynchedBlockNumberForPublicKey 11 5]"
proof -
  have h: "fst (process sampleEnv [sampleBlock5] [sampleLogs5] sampleProcessor) = None \<and> [sampleBlock5] \<noteq> []"
    by (simp add: sample_process5_at5)
  have d: "decodedIncoming sampleEnv sampleProcessor [sampleBlock5] [sampleLogs5] = [sampleNoteA]"
          "decodedOutgoing sampleEnv sampleProcessor [sampleBlock5] [sampleLogs5] = []"
          "decodedDeferred sampleEnv sampleProcessor [sampleBlock5] [sampleLogs5] = [sampleDeferredB]"
    by (simp_all add: decodedIncoming_def decodedOutgoing_def decodedDeferred_def sample_decode5)
  have k: "ivpkM sampleProcessor = 11" "dbCalls sampleProcessor = []" "number sampleBlock5 = 5"
    by (simp_all add: sampleProcessor_def sampleBlock5_def)
  show ?thesis using h process_persists_in_order [OF h] by (simp add: d k)
qed

text \<open>
  The order claimed for C1 (deferred records before the removal) is not the order of the
  calls: on blocks 5 and 6 of the sample the removal is the second call, the deferred
  records the third.
\<close>

theorem process_persists_in_order_counterexample:
  "dbCalls (snd (process sampleEnv [sampleBlock5, sampleBlock6] [sampleLogs5, sampleLogsOut] sampleProcessor)) =
     [AddNotes [sampleNoteA] [sampleOutA], RemoveNullifiedNotes [30] 11,
      AddDeferredNotes [sampleDeferredB], SetSynchedBlockNumberForPublicKey 11 6]
   \<and> dbCalls (snd (process sampleEnv [sampleBlock5, sampleBlock6] [sampleLogs5, sampleLogsOut] sampleProcessor)) \<noteq>
     [AddNotes [sampleNoteA] [sampleOutA], AddDeferredNotes [sampleDeferredB],
      RemoveNullifiedNotes [30] 11, SetSynchedBlockNumberForPublicKey 11 6]"
  by (simp add: sample_process56)

section \<open>The synched block number\<close>

lemma getSyncedToBlock_set:
  "db np' = setSynchedBlockNumberForPublicKey (ivpkM np') n d \<Longrightarrow> getSyncedToBlock np' = n"
  by (simp add: getSyncedToBlock_def getSynchedBlockNumberForPublicKey_def
      setSynchedBlockNumberForPublicKey_def)

lemma process_watermark_success:
  assumes "fst (process env l2Blocks encryptedL2BlockLogs np) = None" and "l2Blocks \<noteq> []"
  shows "getSyncedToBlock (snd (process env l2Blocks encryptedL2BlockLogs np)) = number (last l2Blocks)
         \<and> last (dbCalls (snd (process env l2Blocks encryptedL2BlockLogs np)))
             = SetSynchedBlockNumberForPublicKey (ivpkM np) (number (last l2Blocks))
         \<and> filter isWatermarkWrite
             (drop (length (dbCalls np)) (dbCalls (snd (process env l2Blocks encryptedL2BlockLogs np))))
             = [SetSynchedBlockNumberForPublicKey (ivpkM np) (number (last l2Blocks))]"
proof -
  let ?s = "snd (decodeBlocks env np l2Blocks encryptedL2BlockLogs)"
  let ?np' = "persistBatch l2Blocks ?s (np\<lparr>stats := curStats ?s\<rparr>)"
  from process_success [OF assms]
  have res: "snd (process env l2Blocks encryptedL2BlockLogs np) = ?np'" by simp
  have lst: "l2Blocks ! (length l2Blocks - 1) = last l2Blocks"
    using assms(2) by (simp add: last_conv_nth)
  have "db ?np' = setSynchedBlockNumberForPublicKey (ivpkM ?np') (number (last l2Blocks))
      (addDeferredNotes (deferredNoteDaosIncoming ?s)
          (snd (removeNullifiedNotes (newNullifiers (blocksAndNotes ?s)) (ivpkM np)
             (addNotes (concat (map pdIncomingNotes (blocksAndNotes ?s)))
                       (concat (map pdOutgoingNotes (blocksAndNotes ?s))) (db np)))))"
    using lst by (simp add: persistBatch_db persistBatch_fields)
  then have w: "getSyncedToBlock ?np' = number (last l2Blocks)" by (rule getSyncedToBlock_set)
  have c: "last (dbCalls ?np') = SetSynchedBlockNumberForPublicKey (ivpkM np) (number (last l2Blocks))"
    "filter isWatermarkWrite (drop (length (dbCalls np)) (dbCalls ?np'))
       = [SetSynchedBlockNumberForPublicKey (ivpkM np) (number (last l2Blocks))]"
    using lst by (simp_all add: persistBatch_dbCalls isWatermarkWrite_def)
  show ?thesis unfolding res using w c by simp
qed

lemma process_watermark_unchanged:
  assumes "fst (process env l2Blocks encryptedL2BlockLogs np) \<noteq> None \<or> l2Blocks = []"
  shows "getSyncedToBlock (snd (process env l2Blocks encryptedL2BlockLogs np)) = getSyncedToBlock np
         \<and> dbCalls (snd (process env l2Blocks encryptedL2BlockLogs np)) = dbCalls np"
proof -
  have "db (snd (process env l2Blocks encryptedL2BlockLogs np)) = db np
        \<and> dbCalls (snd (process env l2Blocks encryptedL2BlockLogs np)) = dbCalls np"
  proof (cases "fst (process env l2Blocks encryptedL2BlockLogs np) \<noteq> None")
    case True
    then show ?thesis by (rule process_error_commits_nothing)
  next
    case False
    then have "l2Blocks = []" using assms by simp
    then show ?thesis by (simp add: process_def)
  qed
  then show ?thesis
    using getSyncedToBlock_cong [of "snd (process env l2Blocks encryptedL2BlockLogs np)" np]
    by (simp add: process_fields)
qed

text \<open>
  The two parts of \<open>handleL2Blocks\<close>: the part before its \<^verbatim>\<open>await\<close> reconciles the pool and
  leaves the number alone, the part after writes the number and leaves the pool alone.
\<close>

lemma handleL2Blocks_watermark:
  assumes "p2pBlocks \<noteq> []"
  shows "handleL2Blocks p2pBlocks c = handleL2BlocksResume p2pBlocks (handleL2BlocksBegin p2pBlocks c)
         \<and> currentL2BlockNum (handleL2BlocksBegin p2pBlocks c) = currentL2BlockNum c
         \<and> txPool (handleL2BlocksBegin p2pBlocks c)
             = fold (\<lambda>blk. deleteTxs (createTxIds blk)) p2pBlocks (txPool c)
         \<and> txPool (handleL2BlocksResume p2pBlocks c') = txPool c'
         \<and> currentL2BlockNum (handleL2BlocksResume p2pBlocks c') = number (last p2pBlocks)
         \<and> currentL2BlockNum (handleL2Blocks p2pBlocks c) = number (last p2pBlocks)
         \<and> txPool (handleL2Blocks p2pBlocks c) = txPool (reconcileTxPool p2pBlocks c)
         \<and> logged (handleL2Blocks p2pBlocks c) =
             logged (reconcileTxPool p2pBlocks c) @ SynchedToBlock (number (last p2pBlocks))
               # (if currentState c = SYNCHING \<and> latestBlockNumberAtStart c \<le> number (last p2pBlocks)
                  then [MovedToState RUNNING] else [])"
proof -
  have split: "handleL2Blocks p2pBlocks c = handleL2BlocksResume p2pBlocks (handleL2BlocksBegin p2pBlocks c)"
    using assms by (simp add: handleL2Blocks_def)
  have before: "handleL2BlocksBegin p2pBlocks c = reconcileTxPool p2pBlocks c"
    by (simp add: handleL2BlocksBegin_def)
  have resume: "txPool (handleL2BlocksResume p2pBlocks d) = txPool d"
               "currentL2BlockNum (handleL2BlocksResume p2pBlocks d) = number (last p2pBlocks)"
               "logged (handleL2BlocksResume p2pBlocks d) =
                  logged d @ SynchedToBlock (number (last p2pBlocks))
                    # (if currentState d = SYNCHING \<and> latestBlockNumberAtStart d \<le> number (last p2pBlocks)
                       then [MovedToState RUNNING] else [])" for d
    using assms
    by (simp_all add: handleL2BlocksResume_def Let_def logP2P_def setCurrentState_def last_conv_nth)
  show ?thesis
    unfolding split by (simp add: resume before reconcileTxPool_pool)
qed

text \<open>
  C2, as the code has it. A call of \<open>process\<close> that accepts a batch which is not empty
  sets the synched block number to the number of the last block of the batch, by the last
  call it makes on the database and by no other; a call that fails, or is given no block,
  leaves it alone. \<open>handleL2Blocks\<close> on a batch that is not empty first reconciles the
  pool: where it gives up control the identifiers of the blocks are gone from the pool
  and \<open>currentL2BlockNum\<close> is what it was. The part that runs after that sets
  \<open>currentL2BlockNum\<close> to the number of the last block and does not touch the pool. On an
  empty batch \<open>handleL2Blocks\<close> does nothing. So the number does not decrease when the last
  block of the batch is not below it; nothing in the code compares the two.
\<close>

theorem watermark_follows_last_block:
  "(fst (process env l2Blocks encryptedL2BlockLogs np) = None \<and> l2Blocks \<noteq> [] \<longrightarrow>
      getSyncedToBlock (snd (process env l2Blocks encryptedL2BlockLogs np)) = number (last l2Blocks)
      \<and> last (dbCalls (snd (process env l2Blocks encryptedL2BlockLogs np)))
          = SetSynchedBlockNumberForPublicKey (ivpkM np) (number (last l2Blocks))
      \<and> filter isWatermarkWrite
          (drop (length (dbCalls np)) (dbCalls (snd (process env l2Blocks encryptedL2BlockLogs np))))
          = [SetSynchedBlockNumberForPublicKey (ivpkM np) (number (last l2Blocks))]
      \<and> (getSyncedToBlock np \<le> number (last l2Blocks) \<longrightarrow>
           getSyncedToBlock np \<le> getSyncedToBlock (snd (process env l2Blocks encryptedL2BlockLogs np))))
   \<and> (fst (process env l2Blocks encryptedL2BlockLogs np) \<noteq> None \<or> l2Blocks = [] \<longrightarrow>
        getSyncedToBlock (snd (process env l2Blocks encryptedL2BlockLogs np)) = getSyncedToBlock np
        \<and> dbCalls (snd (process env l2Blocks encryptedL2BlockLogs np)) = dbCalls np)
   \<and> (p2pBlocks \<noteq> [] \<longrightarrow>
        handleL2Blocks p2pBlocks c = handleL2BlocksResume p2pBlocks (handleL2BlocksBegin p2pBlocks c)
        \<and> currentL2BlockNum (handleL2BlocksBegin p2pBlocks c) = currentL2BlockNum c
        \<and> txPool (handleL2BlocksBegin p2pBlocks c)
            = fold (\<lambda>blk. deleteTxs (createTxIds blk)) p2pBlocks (txPool c)
        \<and> txPool (handleL2BlocksResume p2pBlocks c') = txPool c'
        \<and> currentL2BlockNum (handleL2BlocksResume p2pBlocks c') = number (last p2pBlocks)
        \<and> currentL2BlockNum (handleL2Blocks p2pBlocks c) = number (last p2pBlocks)
        \<and> txPool (handleL2Blocks p2pBlocks c) = txPool (reconcileTxPool p2pBlocks c)
        \<and> logged (handleL2Blocks p2pBlocks c) =
            logged (reconcileTxPool p2pBlocks c) @ SynchedToBlock (number (last p2pBlocks))
              # (if currentState c = SYNCHING \<and> latestBlockNumberAtStart c \<le> number (last p2pBlocks)
                 then [MovedToState RUNNING] else [])
        \<and> (currentL2BlockNum c \<le> number (last p2pBlocks) \<longrightarrow>
             currentL2BlockNum c \<le> currentL2BlockNum (handleL2Blocks p2pBlocks c)))
   \<and> handleL2Blocks [] c = c"
proof -
  have n1: "fst (process env l2Blocks encryptedL2BlockLogs np) = None \<and> l2Blocks \<noteq> [] \<longrightarrow>
      getSyncedToBlock (snd (process env l2Blocks encryptedL2BlockLogs np)) = number (last l2Blocks)
      \<and> last (dbCalls (snd (process env l2Blocks encryptedL2BlockLogs np)))
          = SetSynchedBlockNumberForPublicKey (ivpkM np) (number (last l2Blocks))
      \<and> filter isWatermarkWrite
          (drop (length (dbCalls np)) (dbCalls (snd (process env l2Blocks encryptedL2BlockLogs np))))
          = [SetSynchedBlockNumberForPublicKey (ivpkM np) (number (last l2Blocks))]
      \<and> (getSyncedToBlock np \<le> number (last l2Blocks) \<longrightarrow>
           getSyncedToBlock np \<le> getSyncedToBlock (snd (process env l2Blocks encryptedL2BlockLogs np)))"
  proof
    assume a: "fst (process env l2Blocks encryptedL2BlockLogs np) = None \<and> l2Blocks \<noteq> []"
    then have s: "getSyncedToBlock (snd (process env l2Blocks encryptedL2BlockLogs np)) = number (last l2Blocks)
         \<and> last (dbCalls (snd (process env l2Blocks encryptedL2BlockLogs np)))
             = SetSynchedBlockNumberForPublicKey (ivpkM np) (number (last l2Blocks))
         \<and> filter isWatermarkWrite
             (drop (length (dbCalls np)) (dbCalls (snd (process env l2Blocks encryptedL2BlockLogs np))))
             = [SetSynchedBlockNumberForPublicKey (ivpkM np) (number (last l2Blocks))]"
      by (intro process_watermark_success) simp_all
    then show "getSyncedToBlock (snd (process env l2Blocks encryptedL2BlockLogs np)) = number (last l2Blocks)
      \<and> last (dbCalls (snd (process env l2Blocks encryptedL2BlockLogs np)))
          = SetSynchedBlockNumberForPublicKey (ivpkM np) (number (last l2Blocks))
      \<and> filter isWatermarkWrite
          (drop (length (dbCalls np)) (dbCalls (snd (process env l2Blocks encryptedL2BlockLogs np))))
          = [SetSynchedBlockNumberForPublicKey (ivpkM np) (number (last l2Blocks))]
      \<and> (getSyncedToBlock np \<le> number (last l2Blocks) \<longrightarrow>
           getSyncedToBlock np \<le> getSyncedToBlock (snd (process env l2Blocks encryptedL2BlockLogs np)))"
      by simp
  qed
  have n2: "fst (process env l2Blocks encryptedL2BlockLogs np) \<noteq> None \<or> l2Blocks = [] \<longrightarrow>
        getSyncedToBlock (snd (process env l2Blocks encryptedL2BlockLogs np)) = getSyncedToBlock np
        \<and> dbCalls (snd (process env l2Blocks encryptedL2BlockLogs np)) = dbCalls np"
    by (intro impI) (rule process_watermark_unchanged)
  have p: "p2pBlocks \<noteq> [] \<longrightarrow>
        handleL2Blocks p2pBlocks c = handleL2BlocksResume p2pBlocks (handleL2BlocksBegin p2pBlocks c)
        \<and> currentL2BlockNum (handleL2BlocksBegin p2pBlocks c) = currentL2BlockNum c
        \<and> txPool (handleL2BlocksBegin p2pBlocks c)
            = fold (\<lambda>blk. deleteTxs (createTxIds blk)) p2pBlocks (txPool c)
        \<and> txPool (handleL2BlocksResume p2pBlocks c') = txPool c'
        \<and> currentL2BlockNum (handleL2BlocksResume p2pBlocks c') = number (last p2pBlocks)
        \<and> currentL2BlockNum (handleL2Blocks p2pBlocks c) = number (last p2pBlocks)
        \<and> txPool (handleL2Blocks p2pBlocks c) = txPool (reconcileTxPool p2pBlocks c)
        \<and> logged (handleL2Blocks p2pBlocks c) =
            logged (reconcileTxPool p2pBlocks c) @ SynchedToBlock (number (last p2pBlocks))
              # (if currentState c = SYNCHING \<and> latestBlockNumberAtStart c \<le> number (last p2pBlocks)
                 then [MovedToState RUNNING] else [])
        \<and> (currentL2BlockNum c \<le> number (last p2pBlocks) \<longrightarrow>
             currentL2BlockNum c \<le> currentL2BlockNum (handleL2Blocks p2pBlocks c))"
  proof
    assume a: "p2pBlocks \<noteq> []"
    note w = handleL2Blocks_watermark [OF a, of c c']
    have cw: "currentL2BlockNum (handleL2Blocks p2pBlocks c) = number (last p2pBlocks)"
      using w by blast
    have m: "currentL2BlockNum c \<le> number (last p2pBlocks) \<longrightarrow>
             currentL2BlockNum c \<le> currentL2BlockNum (handleL2Blocks p2pBlocks c)"
      unfolding cw by simp
    from w m show "handleL2Blocks p2pBlocks c = handleL2BlocksResume p2pBlocks (handleL2BlocksBegin p2pBlocks c)
        \<and> currentL2BlockNum (handleL2BlocksBegin p2pBlocks c) = currentL2BlockNum c
        \<and> txPool (handleL2BlocksBegin p2pBlocks c)
            = fold (\<lambda>blk. deleteTxs (createTxIds blk)) p2pBlocks (txPool c)
        \<and> txPool (handleL2BlocksResume p2pBlocks c') = txPool c'
        \<and> currentL2BlockNum (handleL2BlocksResume p2pBlocks c') = number (last p2pBlocks)
        \<and> currentL2BlockNum (handleL2Blocks p2pBlocks c) = number (last p2pBlocks)
        \<and> txPool (handleL2Blocks p2pBlocks c) = txPool (reconcileTxPool p2pBlocks c)
        \<and> logged (handleL2Blocks p2pBlocks c) =
            logged (reconcileTxPool p2pBlocks c) @ SynchedToBlock (number (last p2pBlocks))
              # (if currentState c = SYNCHING \<and> latestBlockNumberAtStart c \<le> number (last p2pBlocks)
                 then [MovedToState RUNNING] else [])
        \<and> (currentL2BlockNum c \<le> number (last p2pBlocks) \<longrightarrow>
             currentL2BlockNum c \<le> currentL2BlockNum (handleL2Blocks p2pBlocks c))"
      by blast
  qed
  have e: "handleL2Blocks [] c = c" by (simp add: handleL2Blocks_def)
  show ?thesis by (rule conjI [OF n1 conjI [OF n2 conjI [OF p e]]])
qed

text \<open>
  The number decreases when a batch ends below it: block 5, then block 3, for the note
  processor and, in two turns of the loop of a started client, for the client alike.
\<close>

theorem watermark_regresses_counterexample:
  "fst (process sampleEnv [sampleBlock3] [[]]
          (snd (process sampleEnv [sampleBlock5] [sampleLogs5] sampleProcessor))) = None
   \<and> getSyncedToBlock (snd (process sampleEnv [sampleBlock5] [sampleLogs5] sampleProcessor)) = 5
   \<and> getSyncedToBlock (snd (process sampleEnv [sampleBlock3] [[]]
          (snd (process sampleEnv [sampleBlock5] [sampleLogs5] sampleProcessor)))) = 3
   \<and> currentL2BlockNum (blockProcess [sampleBlock5] (snd (start 10 (newP2PClient [])))) = 5
   \<and> currentL2BlockNum (blockProcess [sampleBlock3]
        (blockProcess [sampleBlock5] (snd (start 10 (newP2PClient []))))) = 3"
proof -
  have a: "process sampleEnv [sampleBlock3] [[]] sampleProcessorAt5 =
             (None, sampleProcessorAt5
                \<lparr>db := (db sampleProcessorAt5)\<lparr>synchedBlockNumbers := [11 \<mapsto> 3]\<rparr>,
                  stats := (stats sampleProcessorAt5)\<lparr>blocks := 2\<rparr>,
                  dbCalls := dbCalls sampleProcessorAt5 @
                    [RemoveNullifiedNotes [] 11, SetSynchedBlockNumberForPublicKey 11 3]\<rparr>)"
    by (simp add: process_defs sample_defs Let_def)
  have b: "getSyncedToBlock (sampleProcessorAt5
                \<lparr>db := (db sampleProcessorAt5)\<lparr>synchedBlockNumbers := [11 \<mapsto> 3]\<rparr>,
                  stats := t, dbCalls := u\<rparr>) = 3" for t u
    by (simp add: getSyncedToBlock_def getSynchedBlockNumberForPublicKey_def sample_defs)
  have p1: "fst (process sampleEnv [sampleBlock3] [[]]
          (snd (process sampleEnv [sampleBlock5] [sampleLogs5] sampleProcessor))) = None"
    by (simp add: sample_process5_at5 a)
  have p2: "getSyncedToBlock (snd (process sampleEnv [sampleBlock5] [sampleLogs5] sampleProcessor)) = 5"
    by (simp add: sample_process5_at5 sample_getSyncedToBlock)
  have p3: "getSyncedToBlock (snd (process sampleEnv [sampleBlock3] [[]]
          (snd (process sampleEnv [sampleBlock5] [sampleLogs5] sampleProcessor)))) = 3"
    by (simp add: sample_process5_at5 a b)
  have p4: "currentL2BlockNum (blockProcess [sampleBlock5] (snd (start 10 (newP2PClient [])))) = 5"
    by (simp add: p2p_defs Let_def sampleBlock5_def)
  have p5: "currentL2BlockNum (blockProcess [sampleBlock3]
        (blockProcess [sampleBlock5] (snd (start 10 (newP2PClient []))))) = 3"
    by (simp add: p2p_defs Let_def sampleBlock5_def sampleBlock3_def)
  from p1 p2 p3 p4 p5 show ?thesis by blast
qed

theorem watermark_follows_last_block_witness:
  "fst (process sampleEnv [sampleBlock5] [sampleLogs5] sampleProcessor) = None \<and> [sampleBlock5] \<noteq> []
   \<and> getSyncedToBlock sampleProcessor \<le> number (last [sampleBlock5])
   \<and> getSyncedToBlock (snd (process sampleEnv [sampleBlock5] [sampleLogs5] sampleProcessor)) = 5
   \<and> last (dbCalls (snd (process sampleEnv [sampleBlock5] [sampleLogs5] sampleProcessor)))
       = SetSynchedBlockNumberForPublicKey 11 5
   \<and> fst (process sampleEnv [sampleBlock5] [] sampleProcessor) \<noteq> None
   \<and> getSyncedToBlock (snd (process sampleEnv [sampleBlock5] [] sampleProcessor)) = 0
   \<and> currentL2BlockNum (newP2PClient []) \<le> number (last [sampleBlock5])
   \<and> currentL2BlockNum (handleL2BlocksBegin [sampleBlock5] (newP2PClient [])) = 0
   \<and> currentL2BlockNum (handleL2Blocks [sampleBlock5] (newP2PClient [])) = 5"
proof -
  have h1: "fst (process sampleEnv [sampleBlock5] [sampleLogs5] sampleProcessor) = None \<and> [sampleBlock5] \<noteq> []"
    by (simp add: sample_process5_at5)
  have h2: "getSyncedToBlock sampleProcessor \<le> number (last [sampleBlock5])"
    by (simp add: sample_getSyncedToBlock sampleBlock5_def)
  have h3: "fst (process sampleEnv [sampleBlock5] [] sampleProcessor) \<noteq> None"
    by (simp add: process_def)
  have h4: "currentL2BlockNum (newP2PClient []) \<le> number (last [sampleBlock5])"
    by (simp add: newP2PClient_def sampleBlock5_def)
  have h5: "[sampleBlock5] \<noteq> []" by simp
  have k: "ivpkM sampleProcessor = 11" "number (last [sampleBlock5]) = 5"
          "currentL2BlockNum (newP2PClient []) = 0"
    by (simp_all add: sampleProcessor_def sampleBlock5_def newP2PClient_def)
  note k = k sample_getSyncedToBlock(1)
  note w1 = watermark_follows_last_block [of sampleEnv "[sampleBlock5]" "[sampleLogs5]" sampleProcessor
         "[sampleBlock5]" "newP2PClient []" "newP2PClient []"]
  note w2 = watermark_follows_last_block [of sampleEnv "[sampleBlock5]" "[]" sampleProcessor
         "[sampleBlock5]" "newP2PClient []" "newP2PClient []"]
  have c1: "getSyncedToBlock (snd (process sampleEnv [sampleBlock5] [sampleLogs5] sampleProcessor)) = 5"
    using w1 h1 k by metis
  have c2: "last (dbCalls (snd (process sampleEnv [sampleBlock5] [sampleLogs5] sampleProcessor)))
       = SetSynchedBlockNumberForPublicKey 11 5"
    using w1 h1 k by metis
  have c3: "getSyncedToBlock (snd (process sampleEnv [sampleBlock5] [] sampleProcessor)) = 0"
    using w2 h3 k by metis
  have c4: "currentL2BlockNum (handleL2Blocks [sampleBlock5] (newP2PClient [])) = 5"
    using w1 h5 k by metis
  have c5: "currentL2BlockNum (handleL2BlocksBegin [sampleBlock5] (newP2PClient [])) = 0"
    using w1 h5 k by metis
  from h1 h2 h3 h4 c1 c2 c3 c4 c5 show ?thesis by blast
qed

section \<open>One batch or two\<close>

lemma collectNoteDaos_continues:
  assumes "continuesLog pd pbn s s'"
  shows "continuesLog pd pbn (collectNoteDaos env blk i iv ov p s) (collectNoteDaos env blk i iv ov p s')"
proof -
  have e: "excludedIndices s' = excludedIndices s" using assms by (simp add: continuesLog_def)
  obtain r excl where r: "produceNoteDaos env iv ov p (txHash (txEffects blk ! i))
      (noteHashes (txEffects blk ! i)) (dataStartIndexForTx env blk i) (excludedIndices s) = (r, excl)"
    by (cases "produceNoteDaos env iv ov p (txHash (txEffects blk ! i))
      (noteHashes (txEffects blk ! i)) (dataStartIndexForTx env blk i) (excludedIndices s)")
  show ?thesis using assms
    by (cases "incomingNote r"; cases "outgoingNote r"; cases "incomingDeferredNote r")
       (simp_all add: collectNoteDaos_def e r Let_def continuesLog_def continuesTx_def continues_def)
qed

lemma processLog_continues:
  assumes "ivpkM np' = ivpkM np" and "ovpkM np' = ovpkM np" and "continuesLog pd pbn s s'"
  shows "fst (processLog env np blk i d s) = fst (processLog env np' blk i d s')
         \<and> continuesLog pd pbn (snd (processLog env np blk i d s)) (snd (processLog env np' blk i d s'))"
proof -
  let ?s1 = "s\<lparr>curStats := (curStats s)\<lparr>seen := seen (curStats s) + 1\<rparr>\<rparr>"
  let ?s1' = "s'\<lparr>curStats := (curStats s')\<lparr>seen := seen (curStats s') + 1\<rparr>\<rparr>"
  have c1: "continuesLog pd pbn ?s1 ?s1'"
    using assms(3) by (simp add: continuesLog_def continuesTx_def continues_def)
  show ?thesis
    using collectNoteDaos_continues [OF c1] c1
    by (simp add: processLog_def Let_def assms(1,2) split: option.splits)
qed

lemma processTx_continues:
  assumes "ivpkM np' = ivpkM np" and "ovpkM np' = ovpkM np" and "continuesTx pd pbn s s'"
  shows "fst (processTx env np blk txLogs i s) = fst (processTx env np' blk txLogs i s')
         \<and> continuesTx pd pbn (snd (processTx env np blk txLogs i s)) (snd (processTx env np' blk txLogs i s'))"
proof (cases "i < length (txEffects blk)")
  case True
  let ?s1 = "s\<lparr>curStats := (curStats s)\<lparr>txs := txs (curStats s) + 1\<rparr>, excludedIndices := {}\<rparr>"
  let ?s1' = "s'\<lparr>curStats := (curStats s')\<lparr>txs := txs (curStats s') + 1\<rparr>, excludedIndices := {}\<rparr>"
  have c1: "continuesLog pd pbn ?s1 ?s1'"
    using assms(3) by (simp add: continuesLog_def continuesTx_def continues_def)
  have "fst (forEach (\<lambda>functionLogs. forEach (processLog env np blk i) functionLogs) (txLogs ! i) ?s1)
        = fst (forEach (\<lambda>functionLogs. forEach (processLog env np' blk i) functionLogs) (txLogs ! i) ?s1')
     \<and> continuesLog pd pbn
         (snd (forEach (\<lambda>functionLogs. forEach (processLog env np blk i) functionLogs) (txLogs ! i) ?s1))
         (snd (forEach (\<lambda>functionLogs. forEach (processLog env np' blk i) functionLogs) (txLogs ! i) ?s1'))"
    using c1
    by (intro forEach_rel [where R = "continuesLog pd pbn"] processLog_continues assms(1,2))
  then show ?thesis using True by (simp add: processTx_def Let_def continuesLog_def)
next
  case False
  then show ?thesis using assms(3)
    by (simp add: processTx_def Let_def continuesTx_def continues_def)
qed

lemma processBlock_continues:
  assumes "ivpkM np' = ivpkM np" and "ovpkM np' = ovpkM np" and "continues pd pbn s s'"
  shows "fst (processBlock env np blk txLogs s) = fst (processBlock env np' blk txLogs s')
         \<and> continues pd pbn (snd (processBlock env np blk txLogs s)) (snd (processBlock env np' blk txLogs s'))"
proof -
  let ?s1 = "s\<lparr>curStats := (curStats s)\<lparr>blocks := blocks (curStats s) + 1\<rparr>,
               incomingNotes := [], outgoingNotes := []\<rparr>"
  let ?s1' = "s'\<lparr>curStats := (curStats s')\<lparr>blocks := blocks (curStats s') + 1\<rparr>,
               incomingNotes := [], outgoingNotes := []\<rparr>"
  let ?r = "forEach (processTx env np blk txLogs) [0 ..< length txLogs] ?s1"
  let ?r' = "forEach (processTx env np' blk txLogs) [0 ..< length txLogs] ?s1'"
  have c1: "continuesTx pd pbn ?s1 ?s1'"
    using assms(3) by (simp add: continuesTx_def continues_def)
  have rel: "fst ?r = fst ?r' \<and> continuesTx pd pbn (snd ?r) (snd ?r')"
    using c1 by (intro forEach_rel [where R = "continuesTx pd pbn"] processTx_continues assms(1,2))
  have unf: "\<And>n t. processBlock env n blk txLogs t =
     (case fst (forEach (processTx env n blk txLogs) [0 ..< length txLogs]
                  (t\<lparr>curStats := (curStats t)\<lparr>blocks := blocks (curStats t) + 1\<rparr>,
                     incomingNotes := [], outgoingNotes := []\<rparr>)) of
        Some e \<Rightarrow> (Some e, snd (forEach (processTx env n blk txLogs) [0 ..< length txLogs]
                  (t\<lparr>curStats := (curStats t)\<lparr>blocks := blocks (curStats t) + 1\<rparr>,
                     incomingNotes := [], outgoingNotes := []\<rparr>)))
      | None \<Rightarrow> (None, (snd (forEach (processTx env n blk txLogs) [0 ..< length txLogs]
                  (t\<lparr>curStats := (curStats t)\<lparr>blocks := blocks (curStats t) + 1\<rparr>,
                     incomingNotes := [], outgoingNotes := []\<rparr>)))
            \<lparr>blocksAndNotes := blocksAndNotes (snd (forEach (processTx env n blk txLogs) [0 ..< length txLogs]
                  (t\<lparr>curStats := (curStats t)\<lparr>blocks := blocks (curStats t) + 1\<rparr>,
                     incomingNotes := [], outgoingNotes := []\<rparr>))) @
               [\<lparr>block = blk, pdIncomingNotes = incomingNotes (snd (forEach (processTx env n blk txLogs) [0 ..< length txLogs]
                  (t\<lparr>curStats := (curStats t)\<lparr>blocks := blocks (curStats t) + 1\<rparr>,
                     incomingNotes := [], outgoingNotes := []\<rparr>))),
                 pdOutgoingNotes = outgoingNotes (snd (forEach (processTx env n blk txLogs) [0 ..< length txLogs]
                  (t\<lparr>curStats := (curStats t)\<lparr>blocks := blocks (curStats t) + 1\<rparr>,
                     incomingNotes := [], outgoingNotes := []\<rparr>)))\<rparr>]\<rparr>))"
    by (simp add: processBlock_def Let_def split: prod.splits option.splits)
  show ?thesis
  proof (cases "fst ?r")
    case None
    then have n': "fst ?r' = None" using rel by simp
    show ?thesis unfolding unf None n' using rel by (simp add: continuesTx_def continues_def)
  next
    case (Some e)
    then have n': "fst ?r' = Some e" using rel by simp
    show ?thesis unfolding unf Some n' using rel by (simp add: continuesTx_def continues_def)
  qed
qed

lemma blockLoop_continues:
  assumes "ivpkM np' = ivpkM np" and "ovpkM np' = ovpkM np" and "continues pd pbn s s'"
  shows "fst (forEach (\<lambda>p. processBlock env np (fst p) (snd p)) zs s)
           = fst (forEach (\<lambda>p. processBlock env np' (fst p) (snd p)) zs s')
         \<and> continues pd pbn (snd (forEach (\<lambda>p. processBlock env np (fst p) (snd p)) zs s))
              (snd (forEach (\<lambda>p. processBlock env np' (fst p) (snd p)) zs s'))"
  using assms(3)
  by (intro forEach_rel [where R = "continues pd pbn"] processBlock_continues assms(1,2))

lemma isNullified_append:
  "isNullified (ns1 @ ns2) k n \<longleftrightarrow> isNullified ns1 k n \<or> isNullified ns2 k n"
  by (auto simp: isNullified_def)

lemma emittedNullifiers_append:
  "emittedNullifiers (bs1 @ bs2) = emittedNullifiers bs1 @ emittedNullifiers bs2"
  by (simp add: emittedNullifiers_def)

text \<open>The database after two batches persisted one after the other, and after both at once.\<close>

lemma persist_twice_db:
  assumes "\<forall>n \<in> set i2. siloedNullifier n \<notin> set n1"
  shows "setSynchedBlockNumberForPublicKey k w2
           (addDeferredNotes d2 (snd (removeNullifiedNotes n2 k (addNotes i2 out2
              (setSynchedBlockNumberForPublicKey k w1
                 (addDeferredNotes d1 (snd (removeNullifiedNotes n1 k (addNotes i1 out1 d)))))))))
         = setSynchedBlockNumberForPublicKey k w2
             (addDeferredNotes (d1 @ d2) (snd (removeNullifiedNotes (n1 @ n2) k
                (addNotes (i1 @ i2) (out1 @ out2) d))))"
proof -
  have "filter (\<lambda>n. \<not> isNullified (n1 @ n2) k n) i2 = filter (\<lambda>n. \<not> isNullified n2 k n) i2"
    using assms by (intro filter_cong) (auto simp: isNullified_def)
  then show ?thesis
    by (simp add: setSynchedBlockNumberForPublicKey_def addDeferredNotes_def removeNullifiedNotes_def
        addNotes_def isNullified_append)
qed

lemma newNullifiers_append: "newNullifiers (xs @ ys) = newNullifiers xs @ newNullifiers ys"
  by (simp add: newNullifiers_def)

lemma process_split_nonempty:
  assumes len1: "length b1 = length l1" and len2: "length b2 = length l2"
      and ne1: "b1 \<noteq> []" and ne2: "b2 \<noteq> []"
      and ok: "fst (process env (b1 @ b2) (l1 @ l2) np) = None"
      and fresh: "\<forall>n \<in> set (decodedIncoming env (snd (process env b1 l1 np)) b2 l2).
                    siloedNullifier n \<notin> set (emittedNullifiers b1)"
  shows "fst (process env b1 l1 np) = None
         \<and> fst (process env b2 l2 (snd (process env b1 l1 np))) = None
         \<and> db (snd (process env b2 l2 (snd (process env b1 l1 np))))
             = db (snd (process env (b1 @ b2) (l1 @ l2) np))
         \<and> stats (snd (process env b2 l2 (snd (process env b1 l1 np))))
             = stats (snd (process env (b1 @ b2) (l1 @ l2) np))"
proof -
  let ?s0 = "initialLocals (stats np)"
  let ?r1 = "forEach (\<lambda>p. processBlock env np (fst p) (snd p)) (zip b1 l1) ?s0"
  let ?s1 = "snd ?r1"
  let ?rW = "forEach (\<lambda>p. processBlock env np (fst p) (snd p)) (zip b2 l2) ?s1"
  let ?sW = "snd ?rW"
  let ?np1 = "persistBatch b1 ?s1 (np\<lparr>stats := curStats ?s1\<rparr>)"
  let ?r2 = "forEach (\<lambda>p. processBlock env ?np1 (fst p) (snd p)) (zip b2 l2) (initialLocals (curStats ?s1))"
  let ?s2 = "snd ?r2"
  have neW: "b1 @ b2 \<noteq> []" using ne1 by simp
  have lenW: "length (b1 @ b2) = length (l1 @ l2)" using len1 len2 by simp
  from process_success [OF ok neW]
  have okW: "fst (decodeBlocks env np (b1 @ b2) (l1 @ l2)) = None"
    and resW: "snd (process env (b1 @ b2) (l1 @ l2) np) =
                 persistBatch (b1 @ b2) (snd (decodeBlocks env np (b1 @ b2) (l1 @ l2)))
                   (np\<lparr>stats := curStats (snd (decodeBlocks env np (b1 @ b2) (l1 @ l2)))\<rparr>)"
    by simp_all
  have dW: "decodeBlocks env np (b1 @ b2) (l1 @ l2) =
              forEach (\<lambda>p. processBlock env np (fst p) (snd p)) (zip b1 l1 @ zip b2 l2) ?s0"
    by (simp add: decodeBlocks_zip [OF lenW] len1)
  have d1: "decodeBlocks env np b1 l1 = ?r1" by (simp add: decodeBlocks_zip [OF len1])
  have ok1: "fst ?r1 = None"
    using okW unfolding dW forEach_append by (simp split: option.splits)
  then have whole: "decodeBlocks env np (b1 @ b2) (l1 @ l2) = ?rW"
    unfolding dW forEach_append by simp
  have okW': "fst ?rW = None" using okW whole by simp
  have nl: "l1 \<noteq> []" "l2 \<noteq> []" using len1 len2 ne1 ne2 by auto
  have p1: "process env b1 l1 np = (None, ?np1)"
    using ok1 nl len1 d1 by (cases ?r1) (simp add: process_def)
  have keys: "ivpkM ?np1 = ivpkM np" "ovpkM ?np1 = ovpkM np" "stats ?np1 = curStats ?s1"
    by (simp_all add: persistBatch_fields)
  have d2: "decodeBlocks env ?np1 b2 l2 = ?r2"
    by (simp add: decodeBlocks_zip [OF len2] keys)
  have c0: "continues (deferredNoteDaosIncoming ?s1) (blocksAndNotes ?s1) (initialLocals (curStats ?s1)) ?s1"
    by (simp add: continues_def initialLocals_def)
  have rel: "fst ?r2 = fst ?rW
             \<and> continues (deferredNoteDaosIncoming ?s1) (blocksAndNotes ?s1) ?s2 ?sW"
    using keys by (intro blockLoop_continues c0) simp_all
  then have ok2: "fst ?r2 = None" using okW' by simp
  have p2: "process env b2 l2 ?np1 = (None, persistBatch b2 ?s2 (?np1\<lparr>stats := curStats ?s2\<rparr>))"
    using ok2 nl len2 d2 by (cases ?r2) (simp add: process_def)
  have bnW: "blocksAndNotes ?sW = blocksAndNotes ?s1 @ blocksAndNotes ?s2"
    and dfW: "deferredNoteDaosIncoming ?sW = deferredNoteDaosIncoming ?s1 @ deferredNoteDaosIncoming ?s2"
    and stW: "curStats ?sW = curStats ?s2"
    using rel by (simp_all add: continues_def)
  have n1: "newNullifiers (blocksAndNotes ?s1) = emittedNullifiers b1"
    using decodeBlocks_blocks [OF len1, of env np] ok1 d1 by (simp add: newNullifiers_emitted)
  have i2: "decodedIncoming env ?np1 b2 l2 = concat (map pdIncomingNotes (blocksAndNotes ?s2))"
    by (simp add: decodedIncoming_def d2)
  have fresh': "\<forall>n \<in> set (concat (map pdIncomingNotes (blocksAndNotes ?s2))).
                  siloedNullifier n \<notin> set (newNullifiers (blocksAndNotes ?s1))"
    using fresh unfolding p1 snd_conv i2 n1 .
  have lastW: "(b1 @ b2) ! (length (b1 @ b2) - 1) = b2 ! (length b2 - 1)"
  proof -
    have "0 < length b2" using ne2 by simp
    then have "\<not> length b1 + length b2 - 1 < length b1" by arith
    moreover have "length b1 + length b2 - 1 - length b1 = length b2 - 1" by arith
    ultimately show ?thesis by (simp add: nth_append)
  qed
  let ?k = "ivpkM np"
  let ?w1 = "number (b1 ! (length b1 - 1))"
  let ?w2 = "number (b2 ! (length b2 - 1))"
  let ?I1 = "concat (map pdIncomingNotes (blocksAndNotes ?s1))"
  let ?O1 = "concat (map pdOutgoingNotes (blocksAndNotes ?s1))"
  let ?I2 = "concat (map pdIncomingNotes (blocksAndNotes ?s2))"
  let ?O2 = "concat (map pdOutgoingNotes (blocksAndNotes ?s2))"
  let ?N1 = "newNullifiers (blocksAndNotes ?s1)"
  let ?N2 = "newNullifiers (blocksAndNotes ?s2)"
  let ?D1 = "deferredNoteDaosIncoming ?s1"
  let ?D2 = "deferredNoteDaosIncoming ?s2"
  have A: "db (persistBatch b2 ?s2 (?np1\<lparr>stats := curStats ?s2\<rparr>)) =
             setSynchedBlockNumberForPublicKey ?k ?w2
               (addDeferredNotes ?D2 (snd (removeNullifiedNotes ?N2 ?k (addNotes ?I2 ?O2
                  (setSynchedBlockNumberForPublicKey ?k ?w1
                     (addDeferredNotes ?D1 (snd (removeNullifiedNotes ?N1 ?k
                        (addNotes ?I1 ?O1 (db np))))))))))"
    by (simp add: persistBatch_db persistBatch_fields)
  have B: "db (persistBatch (b1 @ b2) ?sW (np\<lparr>stats := curStats ?sW\<rparr>)) =
             setSynchedBlockNumberForPublicKey ?k ?w2
               (addDeferredNotes (?D1 @ ?D2) (snd (removeNullifiedNotes (?N1 @ ?N2) ?k
                  (addNotes (?I1 @ ?I2) (?O1 @ ?O2) (db np)))))"
    unfolding persistBatch_db lastW bnW dfW by (simp add: newNullifiers_append)
  have dbeq: "db (persistBatch b2 ?s2 (?np1\<lparr>stats := curStats ?s2\<rparr>))
              = db (persistBatch (b1 @ b2) ?sW (np\<lparr>stats := curStats ?sW\<rparr>))"
    unfolding A B by (rule persist_twice_db [OF fresh'])
  have steq: "stats (persistBatch b2 ?s2 (?np1\<lparr>stats := curStats ?s2\<rparr>))
              = stats (persistBatch (b1 @ b2) ?sW (np\<lparr>stats := curStats ?sW\<rparr>))"
    by (simp add: persistBatch_fields stW)
  show ?thesis
    unfolding p1 snd_conv p2 resW whole using dbeq steq by simp
qed

text \<open>
  C5, as the code has it. Let a list of blocks with their log batches be cut in two. If
  \<open>process\<close> accepts the whole list in one call, and no incoming record decoded from the
  second part carries a nullifier emitted in the first part, then the two calls, one part
  after the other, both succeed and end with the same database, hence the same synched
  block number, and the same statistics as the single call.
\<close>

theorem process_split:
  "length b1 = length l1 \<and> length b2 = length l2
   \<and> fst (process env (b1 @ b2) (l1 @ l2) np) = None
   \<and> (\<forall>n \<in> set (decodedIncoming env (snd (process env b1 l1 np)) b2 l2).
         siloedNullifier n \<notin> set (emittedNullifiers b1))
   \<Longrightarrow>
     fst (process env b1 l1 np) = None
     \<and> fst (process env b2 l2 (snd (process env b1 l1 np))) = None
     \<and> db (snd (process env b2 l2 (snd (process env b1 l1 np))))
         = db (snd (process env (b1 @ b2) (l1 @ l2) np))
     \<and> getSyncedToBlock (snd (process env b2 l2 (snd (process env b1 l1 np))))
         = getSyncedToBlock (snd (process env (b1 @ b2) (l1 @ l2) np))
     \<and> stats (snd (process env b2 l2 (snd (process env b1 l1 np))))
         = stats (snd (process env (b1 @ b2) (l1 @ l2) np))"
proof -
  assume a: "length b1 = length l1 \<and> length b2 = length l2
   \<and> fst (process env (b1 @ b2) (l1 @ l2) np) = None
   \<and> (\<forall>n \<in> set (decodedIncoming env (snd (process env b1 l1 np)) b2 l2).
         siloedNullifier n \<notin> set (emittedNullifiers b1))"
  have core: "fst (process env b1 l1 np) = None
     \<and> fst (process env b2 l2 (snd (process env b1 l1 np))) = None
     \<and> db (snd (process env b2 l2 (snd (process env b1 l1 np))))
         = db (snd (process env (b1 @ b2) (l1 @ l2) np))
     \<and> stats (snd (process env b2 l2 (snd (process env b1 l1 np))))
         = stats (snd (process env (b1 @ b2) (l1 @ l2) np))"
  proof (cases "b1 = []")
    case True
    then have l1: "l1 = []" using a by simp
    have "process env [] [] np = (None, np)" by (simp add: process_def)
    with True l1 a show ?thesis by simp
  next
    case ne1: False
    show ?thesis
    proof (cases "b2 = []")
      case True
      then have l2: "l2 = []" using a by simp
      have "process env [] [] (snd (process env b1 l1 np)) = (None, snd (process env b1 l1 np))"
        by (simp add: process_def)
      with True l2 a show ?thesis by simp
    next
      case False
      with ne1 a show ?thesis by (intro process_split_nonempty) simp_all
    qed
  qed
  have "getSyncedToBlock (snd (process env b2 l2 (snd (process env b1 l1 np))))
         = getSyncedToBlock (snd (process env (b1 @ b2) (l1 @ l2) np))"
    using core by (intro getSyncedToBlock_cong) (simp_all add: process_fields)
  with core show ?thesis by simp
qed

text \<open>
  Without the first condition C5 fails: when the second part holds a log with conflicting
  payloads, the single call commits nothing, while the first of the two calls has
  committed its part.
\<close>

theorem process_split_counterexample:
  "db (snd (process sampleEnv [sampleBlock6] [sampleLogs6]
              (snd (process sampleEnv [sampleBlock5] [sampleLogs5] sampleProcessor))))
     \<noteq> db (snd (process sampleEnv ([sampleBlock5] @ [sampleBlock6]) ([sampleLogs5] @ [sampleLogs6]) sampleProcessor))
   \<and> getSyncedToBlock (snd (process sampleEnv [sampleBlock6] [sampleLogs6]
              (snd (process sampleEnv [sampleBlock5] [sampleLogs5] sampleProcessor)))) = 5
   \<and> getSyncedToBlock (snd (process sampleEnv ([sampleBlock5] @ [sampleBlock6]) ([sampleLogs5] @ [sampleLogs6])
              sampleProcessor)) = 0"
proof -
  have w: "getSyncedToBlock (sampleProcessorAt5\<lparr>stats := t\<rparr>) = 5"
          "getSyncedToBlock (sampleProcessor\<lparr>stats := t\<rparr>) = 0" for t
    by (simp_all add: getSyncedToBlock_def getSynchedBlockNumberForPublicKey_def sample_defs)
  have d: "db sampleProcessorAt5 \<noteq> db sampleProcessor"
    by (simp add: sample_defs)
  show ?thesis
    using d by (simp add: sample_process5_at5 sample_process6_conflict sample_process56_conflict w)
qed

theorem process_split_witness:
  "length [sampleBlock5] = length [sampleLogs5] \<and> length [sampleBlock6] = length [sampleLogsOut]
   \<and> fst (process sampleEnv ([sampleBlock5] @ [sampleBlock6]) ([sampleLogs5] @ [sampleLogsOut]) sampleProcessor) = None
   \<and> decodedIncoming sampleEnv (snd (process sampleEnv [sampleBlock5] [sampleLogs5] sampleProcessor))
         [sampleBlock6] [sampleLogsOut] = []
   \<and> db (snd (process sampleEnv [sampleBlock6] [sampleLogsOut]
                 (snd (process sampleEnv [sampleBlock5] [sampleLogs5] sampleProcessor))))
       = db (snd (process sampleEnv ([sampleBlock5] @ [sampleBlock6]) ([sampleLogs5] @ [sampleLogsOut]) sampleProcessor))
   \<and> getSyncedToBlock (snd (process sampleEnv [sampleBlock6] [sampleLogsOut]
                 (snd (process sampleEnv [sampleBlock5] [sampleLogs5] sampleProcessor)))) = 6"
proof -
  have i: "decodedIncoming sampleEnv sampleProcessorAt5 [sampleBlock6] [sampleLogsOut] = []"
    by (simp add: decodedIncoming_def process_defs sample_defs Let_def)
  have h: "length [sampleBlock5] = length [sampleLogs5] \<and> length [sampleBlock6] = length [sampleLogsOut]
   \<and> fst (process sampleEnv ([sampleBlock5] @ [sampleBlock6]) ([sampleLogs5] @ [sampleLogsOut]) sampleProcessor) = None
   \<and> (\<forall>n \<in> set (decodedIncoming sampleEnv (snd (process sampleEnv [sampleBlock5] [sampleLogs5] sampleProcessor))
                      [sampleBlock6] [sampleLogsOut]).
         siloedNullifier n \<notin> set (emittedNullifiers [sampleBlock5]))"
    by (simp add: sample_process56 sample_process5_at5 i)
  have w: "getSyncedToBlock (snd (process sampleEnv [sampleBlock6] [sampleLogsOut] sampleProcessorAt5)) = 6"
    by (simp add: sample_process6 getSyncedToBlock_def getSynchedBlockNumberForPublicKey_def sampleProcessor_def)
  from process_split [OF h] have
    "db (snd (process sampleEnv [sampleBlock6] [sampleLogsOut]
                 (snd (process sampleEnv [sampleBlock5] [sampleLogs5] sampleProcessor))))
       = db (snd (process sampleEnv ([sampleBlock5] @ [sampleBlock6]) ([sampleLogs5] @ [sampleLogsOut]) sampleProcessor))"
    by simp
  then show ?thesis using h w i by (simp add: sample_process5_at5)
qed

text \<open>
  The second condition is needed as well: a nullifier emitted in block 4 removes the note
  of block 5 when both blocks are given in one call, and not when they are given in two.
\<close>

lemma process_split_early_nullifier:
  "fst (process sampleEnv [sampleBlock4, sampleBlock5] [[[]], sampleLogs5] sampleProcessor) = None
   \<and> incomingStore (db (snd (process sampleEnv [sampleBlock4, sampleBlock5] [[[]], sampleLogs5] sampleProcessor))) = []
   \<and> incomingStore (db (snd (process sampleEnv [sampleBlock5] [sampleLogs5]
        (snd (process sampleEnv [sampleBlock4] [[[]]] sampleProcessor))))) = [sampleNoteA]"
  by (simp add: process_defs sample_defs Let_def)

end
